theory Spec2Isabelle
  imports Complex_Main
begin

section \<open>Numbers: binary32\<close>

text \<open>
  The program computes with C++ \<^verbatim>\<open>float\<close>, the IEEE 754 binary32 format. A finite
  \<^verbatim>\<open>float\<close> is held as the \<^typ>\<open>real\<close> number it denotes. The coordinates of
  vertices, normals and bounds are only copied and compared, never computed, so they are
  reals; comparison, \<^verbatim>\<open>std::min\<close> and \<^verbatim>\<open>std::max\<close> are exact on them. What the program
  computes with \<^verbatim>\<open>+\<close>, \<^verbatim>\<open>-\<close>, \<^verbatim>\<open>*\<close> and \<^verbatim>\<open>/\<close> is a \<open>float32\<close>: a finite number,
  an infinity or NaN. Each operation rounds its exact result to the nearest binary32
  number, ties to the even significand, and overflows to an infinity. A literal of the
  source stands for the binary32 number it denotes (\<^verbatim>\<open>1e-6f\<close> is \<open>8796093 / 2\<^sup>4\<^sup>3\<close>,
  \<^verbatim>\<open>0.8f\<close> is \<open>13421773 / 2\<^sup>2\<^sup>4\<close>). Not modelled: NaN and infinite coordinates in the
  input, and the sign of zero (it shows only in a division by zero, where the divisor
  is taken as \<open>+0\<close>, as it is for the difference of two equal numbers).
\<close>

datatype float32 = Finite real | PosInf | NegInf | NaN

text \<open>
  Rounding to an integer, ties to even.
\<close>

definition round_half_even :: "real \<Rightarrow> int" where
  "round_half_even y =
     (let f = \<lfloor>y\<rfloor>; d = y - of_int f
      in if d < 1 / 2 then f
         else if 1 / 2 < d then f + 1
         else if even f then f else f + 1)"

text \<open>
  The spacing of the binary32 numbers around a number of absolute value \<open>a\<close>. Below
  \<open>2\<^sup>-\<^sup>1\<^sup>2\<^sup>5\<close> it is \<open>MIN_SUBNORMAL = 2\<^sup>-\<^sup>1\<^sup>4\<^sup>9\<close>; it doubles from one binade to the next, up
  to \<open>2\<^sup>1\<^sup>0\<^sup>4\<close> from \<open>2\<^sup>1\<^sup>2\<^sup>7\<close> on. \<open>ulp_search n q t a\<close> starts with the spacing \<open>q\<close>
  that holds below \<open>t\<close> and doubles both at most \<open>n\<close> times.
\<close>

definition MIN_SUBNORMAL :: real where
  "MIN_SUBNORMAL = 1 / 2 ^ 149"

fun ulp_search :: "nat \<Rightarrow> real \<Rightarrow> real \<Rightarrow> real \<Rightarrow> real" where
  "ulp_search 0 q t a = q"
| "ulp_search (Suc n) q t a = (if a < t then q else ulp_search n (2 * q) (2 * t) a)"

definition ulp32 :: "real \<Rightarrow> real" where
  "ulp32 x = ulp_search 253 MIN_SUBNORMAL (MIN_SUBNORMAL * 2 ^ 24) \<bar>x\<bar>"

text \<open>
  Rounding a real number to binary32: the nearest multiple of the spacing, ties to even;
  a result of magnitude \<open>2\<^sup>1\<^sup>2\<^sup>8\<close> is beyond the largest binary32 number and becomes an
  infinity. A real number is a binary32 number when rounding leaves it as it is.
\<close>

definition round32 :: "real \<Rightarrow> float32" where
  "round32 x =
     (let r = of_int (round_half_even (x / ulp32 x)) * ulp32 x
      in if 2 ^ 128 \<le> r then PosInf
         else if r \<le> - (2 ^ 128) then NegInf
         else Finite r)"

definition is_binary32 :: "real \<Rightarrow> bool" where
  "is_binary32 x = (round32 x = Finite x)"

text \<open>
  The operations of the format.
\<close>

fun fneg :: "float32 \<Rightarrow> float32" where
  "fneg (Finite a) = Finite (- a)"
| "fneg PosInf = NegInf"
| "fneg NegInf = PosInf"
| "fneg NaN = NaN"

fun fadd :: "float32 \<Rightarrow> float32 \<Rightarrow> float32" where
  "fadd (Finite a) (Finite b) = round32 (a + b)"
| "fadd NaN _ = NaN"
| "fadd _ NaN = NaN"
| "fadd PosInf NegInf = NaN"
| "fadd NegInf PosInf = NaN"
| "fadd PosInf _ = PosInf"
| "fadd _ PosInf = PosInf"
| "fadd NegInf _ = NegInf"
| "fadd _ NegInf = NegInf"

definition fsub :: "float32 \<Rightarrow> float32 \<Rightarrow> float32" where
  "fsub a b = fadd a (fneg b)"

fun fmul :: "float32 \<Rightarrow> float32 \<Rightarrow> float32" where
  "fmul (Finite a) (Finite b) = round32 (a * b)"
| "fmul NaN _ = NaN"
| "fmul _ NaN = NaN"
| "fmul PosInf (Finite b) = (if b = 0 then NaN else if 0 < b then PosInf else NegInf)"
| "fmul NegInf (Finite b) = (if b = 0 then NaN else if 0 < b then NegInf else PosInf)"
| "fmul (Finite a) PosInf = (if a = 0 then NaN else if 0 < a then PosInf else NegInf)"
| "fmul (Finite a) NegInf = (if a = 0 then NaN else if 0 < a then NegInf else PosInf)"
| "fmul PosInf PosInf = PosInf"
| "fmul PosInf NegInf = NegInf"
| "fmul NegInf PosInf = NegInf"
| "fmul NegInf NegInf = PosInf"

fun fdiv :: "float32 \<Rightarrow> float32 \<Rightarrow> float32" where
  "fdiv (Finite a) (Finite b) =
     (if b \<noteq> 0 then round32 (a / b)
      else if 0 < a then PosInf
      else if a < 0 then NegInf
      else NaN)"
| "fdiv NaN _ = NaN"
| "fdiv _ NaN = NaN"
| "fdiv (Finite a) PosInf = Finite 0"
| "fdiv (Finite a) NegInf = Finite 0"
| "fdiv PosInf (Finite b) = (if 0 \<le> b then PosInf else NegInf)"
| "fdiv NegInf (Finite b) = (if 0 \<le> b then NegInf else PosInf)"
| "fdiv PosInf PosInf = NaN"
| "fdiv PosInf NegInf = NaN"
| "fdiv NegInf PosInf = NaN"
| "fdiv NegInf NegInf = NaN"

text \<open>
  \<^verbatim>\<open>a < b\<close> on floats: false as soon as one side is NaN.
\<close>

fun fless :: "float32 \<Rightarrow> float32 \<Rightarrow> bool" where
  "fless (Finite a) (Finite b) = (a < b)"
| "fless NaN _ = False"
| "fless _ NaN = False"
| "fless PosInf _ = False"
| "fless _ NegInf = False"
| "fless NegInf _ = True"
| "fless _ PosInf = True"

text \<open>
  \<^verbatim>\<open>std::max(a, b)\<close> is \<^verbatim>\<open>(a < b) ? b : a\<close>; \<^verbatim>\<open>std::max({a, b, c})\<close> over an initializer
  list goes through the list from the left and keeps the first of the largest.
\<close>

definition fmax :: "float32 \<Rightarrow> float32 \<Rightarrow> float32" where
  "fmax a b = (if fless a b then b else a)"

definition fmax3 :: "float32 \<Rightarrow> float32 \<Rightarrow> float32 \<Rightarrow> float32" where
  "fmax3 a b c = fmax (fmax a b) c"

section \<open>Vectors and fixed-size arrays\<close>

text \<open>
  \<^verbatim>\<open>glm::vec3\<close>. \<open>vec3\<close> holds finite coordinates (vertices, normals, bounds); \<open>fvec3\<close>
  holds the results of arithmetic.
\<close>

datatype vec3 = Vec3 (vx: real) (vy: real) (vz: real)

datatype fvec3 = FVec3 (fx: float32) (fy: float32) (fz: float32)

definition to_fvec3 :: "vec3 \<Rightarrow> fvec3" where
  "to_fvec3 v = FVec3 (Finite (vx v)) (Finite (vy v)) (Finite (vz v))"

definition fvec3_add :: "fvec3 \<Rightarrow> fvec3 \<Rightarrow> fvec3" where
  "fvec3_add a b = FVec3 (fadd (fx a) (fx b)) (fadd (fy a) (fy b)) (fadd (fz a) (fz b))"

definition fvec3_sub :: "fvec3 \<Rightarrow> fvec3 \<Rightarrow> fvec3" where
  "fvec3_sub a b = FVec3 (fsub (fx a) (fx b)) (fsub (fy a) (fy b)) (fsub (fz a) (fz b))"

definition fvec3_mul :: "fvec3 \<Rightarrow> float32 \<Rightarrow> fvec3" where
  "fvec3_mul a s = FVec3 (fmul (fx a) s) (fmul (fy a) s) (fmul (fz a) s)"

definition fvec3_neg :: "fvec3 \<Rightarrow> fvec3" where
  "fvec3_neg a = FVec3 (fneg (fx a)) (fneg (fy a)) (fneg (fz a))"

text \<open>
  Exact vector algebra on coordinates: the face normal of \<^verbatim>\<open>createTriangle\<close> and the
  measurements of the statements below (differences, lengths, orthogonality).
\<close>

definition vec3_sub :: "vec3 \<Rightarrow> vec3 \<Rightarrow> vec3" where
  "vec3_sub a b = Vec3 (vx a - vx b) (vy a - vy b) (vz a - vz b)"

definition vec3_mul :: "vec3 \<Rightarrow> real \<Rightarrow> vec3" where
  "vec3_mul a s = Vec3 (vx a * s) (vy a * s) (vz a * s)"

definition vec3_zero :: vec3 where
  "vec3_zero = Vec3 0 0 0"

definition dot :: "vec3 \<Rightarrow> vec3 \<Rightarrow> real" where
  "dot a b = vx a * vx b + vy a * vy b + vz a * vz b"

definition cross :: "vec3 \<Rightarrow> vec3 \<Rightarrow> vec3" where
  "cross a b = Vec3 (vy a * vz b - vy b * vz a)
                    (vz a * vx b - vz b * vx a)
                    (vx a * vy b - vx b * vy a)"

text \<open>
  \<^verbatim>\<open>glm::normalize(v)\<close> is \<^verbatim>\<open>v * inversesqrt(dot(v, v))\<close>. The face normal is taken
  without rounding, and on the zero vector, where the program produces NaN components,
  the model produces the zero vector (\<open>1 / 0 = 0\<close> in HOL). The importer is asked to
  generate normals, so the loader takes this branch only for a mesh that still has none,
  and no statement below depends on the value of a computed normal.
\<close>

definition normalize :: "vec3 \<Rightarrow> vec3" where
  "normalize v = vec3_mul v (1 / sqrt (dot v v))"

text \<open>
  A C array of three elements (\<^verbatim>\<open>glm::vec3 vertices[3]\<close>). Every loop of the program
  that indexes it runs over \<open>0, 1, 2\<close>; an index beyond 2 does not occur.
\<close>

datatype 'a array3 = Array3 'a 'a 'a

fun array3_get :: "'a array3 \<Rightarrow> nat \<Rightarrow> 'a" where
  "array3_get (Array3 a b c) i = (if i = 0 then a else if i = 1 then b else c)"

fun array3_set :: "'a array3 \<Rightarrow> nat \<Rightarrow> 'a \<Rightarrow> 'a array3" where
  "array3_set (Array3 a b c) i v =
     (if i = 0 then Array3 v b c else if i = 1 then Array3 a v c else Array3 a b v)"

fun array3_list :: "'a array3 \<Rightarrow> 'a list" where
  "array3_list (Array3 a b c) = [a, b, c]"

section \<open>The mesh (model\_loader.h)\<close>

record ModelTriangle =
  normal :: vec3
  vertices :: "vec3 array3"

text \<open>
  The bounds are coordinates of vertices; \<open>center\<close> and \<open>scale\<close> are computed.
\<close>

record ModelMesh =
  triangles :: "ModelTriangle list"
  min_bounds :: vec3
  max_bounds :: vec3
  center :: fvec3
  scale :: float32

section \<open>Constants of model\_loader.cpp\<close>

definition TRIANGLE_VERTICES :: nat where
  "TRIANGLE_VERTICES = 3"

definition CENTER_CALCULATION_FACTOR :: real where
  "CENTER_CALCULATION_FACTOR = 0.5"

definition DEFAULT_SCALE :: real where
  "DEFAULT_SCALE = 1.0"

text \<open>\<^verbatim>\<open>1e-6f\<close>: the binary32 number nearest to \<open>10\<^sup>-\<^sup>6\<close>.\<close>

definition EPSILON :: real where
  "EPSILON = 8796093 / 8796093022208"

section \<open>Bounding box, center and scale (model\_loader.cpp)\<close>

text \<open>
  The body of the inner loop of \<^verbatim>\<open>calculateBounds\<close>: the six component updates for one
  vertex.
\<close>

definition expandBounds :: "vec3 \<Rightarrow> ModelMesh \<Rightarrow> ModelMesh" where
  "expandBounds vertex mesh =
     mesh\<lparr>min_bounds := Vec3 (min (vx (min_bounds mesh)) (vx vertex))
                             (min (vy (min_bounds mesh)) (vy vertex))
                             (min (vz (min_bounds mesh)) (vz vertex)),
          max_bounds := Vec3 (max (vx (max_bounds mesh)) (vx vertex))
                             (max (vy (max_bounds mesh)) (vy vertex))
                             (max (vz (max_bounds mesh)) (vz vertex))\<rparr>"

text \<open>
  The inner loop \<^verbatim>\<open>for (int i = 0; i < TRIANGLE_VERTICES; ++i)\<close> over one triangle.
\<close>

definition expandTriangle :: "ModelTriangle \<Rightarrow> ModelMesh \<Rightarrow> ModelMesh" where
  "expandTriangle triangle mesh =
     fold (\<lambda>i m. expandBounds (array3_get (vertices triangle) i) m)
          [0..<TRIANGLE_VERTICES] mesh"

definition calculateBounds :: "ModelMesh \<Rightarrow> ModelMesh" where
  "calculateBounds mesh =
     (case triangles mesh of
        [] \<Rightarrow> mesh
      | t0 # _ \<Rightarrow>
          fold expandTriangle (triangles mesh)
            (mesh\<lparr>min_bounds := array3_get (vertices t0) 0,
                  max_bounds := array3_get (vertices t0) 0\<rparr>))"

definition calculateCenterAndScale :: "ModelMesh \<Rightarrow> ModelMesh" where
  "calculateCenterAndScale mesh =
     (if triangles mesh = [] then mesh
      else
        let mesh1 = mesh\<lparr>center :=
                      fvec3_mul
                        (fvec3_add (to_fvec3 (min_bounds mesh)) (to_fvec3 (max_bounds mesh)))
                        (Finite CENTER_CALCULATION_FACTOR)\<rparr>;
            size = fvec3_sub (to_fvec3 (max_bounds mesh1)) (to_fvec3 (min_bounds mesh1));
            maxSize = fmax3 (fx size) (fy size) (fz size)
        in if fless (Finite EPSILON) maxSize
           then mesh1\<lparr>scale := fdiv (Finite DEFAULT_SCALE) maxSize\<rparr>
           else mesh1\<lparr>scale := Finite DEFAULT_SCALE\<rparr>)"

text \<open>
  The two normalization steps as \<^verbatim>\<open>loadFile\<close> runs them, one after the other.
\<close>

definition normalizeMesh :: "ModelMesh \<Rightarrow> ModelMesh" where
  "normalizeMesh mesh = calculateCenterAndScale (calculateBounds mesh)"


definition largestDimension :: "ModelMesh \<Rightarrow> real" where
  "largestDimension mesh =
     max (max (vx (max_bounds mesh) - vx (min_bounds mesh))
              (vy (max_bounds mesh) - vy (min_bounds mesh)))
         (vz (max_bounds mesh) - vz (min_bounds mesh))"

section \<open>The imported scene (Assimp)\<close>

text \<open>
  The scene that \<^verbatim>\<open>Assimp::Importer::ReadFile\<close> hands to the loader, with the fields the
  loader reads. Counts are the lengths of the arrays (\<^verbatim>\<open>mNumIndices\<close>, \<^verbatim>\<open>mNumVertices\<close>,
  \<^verbatim>\<open>mNumFaces\<close>, \<^verbatim>\<open>mNumMeshes\<close>); a null array pointer is the empty list, and a null
  \<^verbatim>\<open>mNormals\<close> is \<open>None\<close>. Assimp keeps \<^verbatim>\<open>mNormals\<close>, when present, as long as
  \<^verbatim>\<open>mVertices\<close>. Indices are \<^verbatim>\<open>unsigned int\<close>; they are only compared and printed, so
  they are natural numbers here.
\<close>

record aiFace =
  mIndices :: "nat list"

record aiMesh =
  mVertices :: "vec3 list"
  mNormals :: "vec3 list option"
  mFaces :: "aiFace list"

record aiScene =
  mMeshes :: "aiMesh list"

definition mNumIndices :: "aiFace \<Rightarrow> nat" where
  "mNumIndices face = length (mIndices face)"

definition mNumVertices :: "aiMesh \<Rightarrow> nat" where
  "mNumVertices am = length (mVertices am)"

definition HasFaces :: "aiMesh \<Rightarrow> bool" where
  "HasFaces am = (mFaces am \<noteq> [])"

definition HasPositions :: "aiMesh \<Rightarrow> bool" where
  "HasPositions am = (mVertices am \<noteq> [])"

definition HasNormals :: "aiMesh \<Rightarrow> bool" where
  "HasNormals am = (mNormals am \<noteq> None \<and> mVertices am \<noteq> [])"

definition HasMeshes :: "aiScene \<Rightarrow> bool" where
  "HasMeshes scene = (mMeshes scene \<noteq> [])"

text \<open>
  The importer: a file path gives a scene, or no scene and the text of
  \<^verbatim>\<open>importer.GetErrorString()\<close>.
\<close>

type_synonym Importer = "string \<Rightarrow> string + aiScene"

section \<open>The loader (model\_loader.cpp)\<close>

record ModelLoader =
  errorMessage :: string

definition getErrorMessage :: "ModelLoader \<Rightarrow> string" where
  "getErrorMessage loader = errorMessage loader"

text \<open>\<^verbatim>\<open>std::to_string\<close> of an unsigned number: its decimal digits.\<close>

definition digit_char :: "nat \<Rightarrow> char" where
  "digit_char d = ''0123456789'' ! d"

function to_string :: "nat \<Rightarrow> string" where
  "to_string n =
     (if n < 10 then [digit_char n] else to_string (n div 10) @ [digit_char (n mod 10)])"
  by pat_completeness auto
termination
  by (relation "measure id") auto

declare to_string.simps [simp del]

definition setError :: "ModelLoader \<Rightarrow> string \<Rightarrow> string \<Rightarrow> ModelLoader" where
  "setError loader message ctx =
     (if ctx \<noteq> [] then loader\<lparr>errorMessage := message @ '': '' @ ctx\<rparr>
      else loader\<lparr>errorMessage := message\<rparr>)"

definition loadFileWithAssimp ::
  "Importer \<Rightarrow> ModelLoader \<Rightarrow> string \<Rightarrow> ModelLoader \<times> aiScene option" where
  "loadFileWithAssimp importer loader filePath =
     (case importer filePath of
        Inl errorString \<Rightarrow> (setError loader ''Failed to load 3D model'' errorString, None)
      | Inr scene \<Rightarrow> (loader, Some scene))"

definition validateScene :: "ModelLoader \<Rightarrow> aiScene \<Rightarrow> bool \<times> ModelLoader" where
  "validateScene loader scene =
     (if \<not> HasMeshes scene
      then (False, setError loader ''No mesh data found in the file''
                     ''File might be empty or corrupted'')
      else (True, loader))"

definition validateProcessedMesh :: "ModelLoader \<Rightarrow> ModelMesh \<Rightarrow> bool \<times> ModelLoader" where
  "validateProcessedMesh loader mesh =
     (if triangles mesh = []
      then (False, setError loader ''No triangle data could be extracted from the file''
                     ''Model might contain only points/lines or unsupported geometry'')
      else (True, loader))"

text \<open>
  The vertex loop of \<^verbatim>\<open>createTriangle\<close> over the positions \<open>j\<close> still to copy. The caller
  passes faces of exactly three indices only, so \<open>mIndices face ! j\<close> is in range.
\<close>

fun createTriangleVertices ::
  "ModelLoader \<Rightarrow> aiFace \<Rightarrow> aiMesh \<Rightarrow> nat list \<Rightarrow> ModelTriangle
     \<Rightarrow> bool \<times> ModelLoader \<times> ModelTriangle" where
  "createTriangleVertices loader face am [] triangle = (True, loader, triangle)"
| "createTriangleVertices loader face am (j # js) triangle =
     (if mIndices face ! j \<ge> mNumVertices am
      then (False,
            setError loader ''Invalid vertex index in face data''
              (''Index: '' @ to_string (mIndices face ! j)),
            triangle)
      else createTriangleVertices loader face am js
             (triangle\<lparr>vertices :=
                array3_set (vertices triangle) j (mVertices am ! (mIndices face ! j))\<rparr>))"

definition createTriangle ::
  "ModelLoader \<Rightarrow> aiFace \<Rightarrow> aiMesh \<Rightarrow> ModelTriangle \<Rightarrow> bool \<times> ModelLoader \<times> ModelTriangle" where
  "createTriangle loader face am triangle =
     (case createTriangleVertices loader face am [0..<TRIANGLE_VERTICES] triangle of
        (False, loader', triangle') \<Rightarrow> (False, loader', triangle')
      | (True, loader', triangle') \<Rightarrow>
          (True, loader',
           if HasNormals am
           then triangle'\<lparr>normal := the (mNormals am) ! (mIndices face ! 0)\<rparr>
           else
             let v1 = vec3_sub (array3_get (vertices triangle') 1)
                               (array3_get (vertices triangle') 0);
                 v2 = vec3_sub (array3_get (vertices triangle') 2)
                               (array3_get (vertices triangle') 0)
             in triangle'\<lparr>normal := normalize (cross v1 v2)\<rparr>))"

text \<open>\<^verbatim>\<open>ModelTriangle{}\<close>: every component zero.\<close>

definition emptyTriangle :: ModelTriangle where
  "emptyTriangle = \<lparr>normal = vec3_zero, vertices = Array3 vec3_zero vec3_zero vec3_zero\<rparr>"

text \<open>
  The face loop of \<^verbatim>\<open>processMesh\<close> over the faces still to visit. The mesh is the
  caller's, passed by reference: each triangle is pushed onto it as soon as it is built.
\<close>

fun processFaces ::
  "ModelLoader \<Rightarrow> aiMesh \<Rightarrow> aiFace list \<Rightarrow> ModelMesh \<Rightarrow> bool \<times> ModelLoader \<times> ModelMesh" where
  "processFaces loader am [] mesh = (True, loader, mesh)"
| "processFaces loader am (face # faces) mesh =
     (if mNumIndices face = TRIANGLE_VERTICES
      then
        (case createTriangle loader face am emptyTriangle of
           (False, loader', _) \<Rightarrow> (False, loader', mesh)
         | (True, loader', triangle) \<Rightarrow>
             processFaces loader' am faces
               (mesh\<lparr>triangles := triangles mesh @ [triangle]\<rparr>))
      else processFaces loader am faces mesh)"

definition processMesh ::
  "ModelLoader \<Rightarrow> aiMesh \<Rightarrow> ModelMesh \<Rightarrow> bool \<times> ModelLoader \<times> ModelMesh" where
  "processMesh loader am mesh =
     (if \<not> HasFaces am
      then (False,
            setError loader ''Mesh does not contain face data''
              (''Mesh index: '' @ to_string (length (triangles mesh) div 1000)),
            mesh)
      else if \<not> HasPositions am
      then (False,
            setError loader ''Mesh does not contain vertex position data''
              (''Mesh index: '' @ to_string (length (triangles mesh) div 1000)),
            mesh)
      else processFaces loader am (mFaces am) mesh)"

text \<open>
  \<^verbatim>\<open>std::all_of\<close> over the meshes of the scene: it stops at the first mesh whose
  processing fails. (\<^verbatim>\<open>reserve\<close> does not change the contents of the vector.)
\<close>

fun processMeshes ::
  "ModelLoader \<Rightarrow> aiMesh list \<Rightarrow> ModelMesh \<Rightarrow> bool \<times> ModelLoader \<times> ModelMesh" where
  "processMeshes loader [] mesh = (True, loader, mesh)"
| "processMeshes loader (am # ams) mesh =
     (case processMesh loader am mesh of
        (False, loader', mesh') \<Rightarrow> (False, loader', mesh')
      | (True, loader', mesh') \<Rightarrow> processMeshes loader' ams mesh')"

definition processScene ::
  "ModelLoader \<Rightarrow> aiScene \<Rightarrow> ModelMesh \<Rightarrow> bool \<times> ModelLoader \<times> ModelMesh" where
  "processScene loader scene mesh = processMeshes loader (mMeshes scene) mesh"

text \<open>
  \<^verbatim>\<open>loadFile\<close>: the result, the loader afterwards and the caller's mesh afterwards.
\<close>

definition loadFile ::
  "Importer \<Rightarrow> ModelLoader \<Rightarrow> string \<Rightarrow> ModelMesh \<Rightarrow> bool \<times> ModelLoader \<times> ModelMesh" where
  "loadFile importer loader filePath mesh =
     (let loader0 = loader\<lparr>errorMessage := []\<rparr> in
      case loadFileWithAssimp importer loader0 filePath of
        (loader1, None) \<Rightarrow> (False, loader1, mesh)
      | (loader1, Some scene) \<Rightarrow>
          (case validateScene loader1 scene of
             (False, loader2) \<Rightarrow> (False, loader2, mesh)
           | (True, loader2) \<Rightarrow>
               (case processScene loader2 scene mesh of
                  (False, loader3, mesh3) \<Rightarrow> (False, loader3, mesh3)
                | (True, loader3, mesh3) \<Rightarrow>
                    (case validateProcessedMesh loader3 mesh3 of
                       (False, loader4) \<Rightarrow> (False, loader4, mesh3)
                     | (True, loader4) \<Rightarrow>
                         (True, loader4,
                          calculateCenterAndScale (calculateBounds mesh3))))))"

section \<open>Faces the loader accepts\<close>

text \<open>
  A face is a triangle for the loader when it has exactly \<open>TRIANGLE_VERTICES\<close> indices
  (the test of \<^verbatim>\<open>processMesh\<close>); it is in range when all its indices are below the
  vertex count of its mesh (the test of \<^verbatim>\<open>createTriangle\<close>). A mesh is clean when
  \<^verbatim>\<open>processMesh\<close> finds nothing to reject in it: it has faces and positions, and its
  triangles are in range.
\<close>

definition isTriangle :: "aiFace \<Rightarrow> bool" where
  "isTriangle face = (mNumIndices face = TRIANGLE_VERTICES)"

definition faceInRange :: "aiMesh \<Rightarrow> aiFace \<Rightarrow> bool" where
  "faceInRange am face = (\<forall>i\<in>set (mIndices face). i < mNumVertices am)"

definition trianglesInRange :: "aiMesh \<Rightarrow> aiFace list \<Rightarrow> bool" where
  "trianglesInRange am faces =
     (\<forall>face\<in>set faces. isTriangle face \<longrightarrow> faceInRange am face)"

definition cleanMesh :: "aiMesh \<Rightarrow> bool" where
  "cleanMesh am = (HasFaces am \<and> HasPositions am \<and> trianglesInRange am (mFaces am))"

section \<open>Constants of viewer.cpp\<close>

definition AXIS_LENGTH :: real where
  "AXIS_LENGTH = 2.0"

definition MODEL_DESIRED_SIZE :: real where
  "MODEL_DESIRED_SIZE = 1.5"

text \<open>\<^verbatim>\<open>0.8f\<close>: the binary32 number nearest to \<open>0.8\<close>.\<close>

definition MODEL_COLOR_R :: real where
  "MODEL_COLOR_R = 13421773 / 16777216"

definition MODEL_COLOR_G :: real where
  "MODEL_COLOR_G = 13421773 / 16777216"

definition MODEL_COLOR_B :: real where
  "MODEL_COLOR_B = 13421773 / 16777216"

definition VERTEX_COMPONENTS :: nat where
  "VERTEX_COMPONENTS = 9"

definition POSITION_COMPONENTS :: nat where
  "POSITION_COMPONENTS = 3"

definition COLOR_COMPONENTS :: nat where
  "COLOR_COMPONENTS = 3"

definition AXIS_VERTICES :: nat where
  "AXIS_VERTICES = 2"

section \<open>Vertex buffers (viewer.cpp)\<close>

text \<open>
  The \<^verbatim>\<open>std::array<float, VERTEX_COMPONENTS>\<close> that the lambda of
  \<^verbatim>\<open>convertSTLToVertices\<close> builds for one vertex of a triangle.
\<close>

definition vertexArray :: "ModelTriangle \<Rightarrow> vec3 \<Rightarrow> real list" where
  "vertexArray triangle vertex =
     [vx vertex, vy vertex, vz vertex,
      MODEL_COLOR_R, MODEL_COLOR_G, MODEL_COLOR_B,
      vx (normal triangle), vy (normal triangle), vz (normal triangle)]"

text \<open>
  \<^verbatim>\<open>vertexData\<close>: the three arrays of one triangle, in the order of its vertices.
\<close>

definition vertexData :: "ModelTriangle \<Rightarrow> real list list" where
  "vertexData triangle = map (vertexArray triangle) (array3_list (vertices triangle))"

text \<open>
  The outer loop runs over the triangles, the inner one over the three arrays of a
  triangle, each inserted at the end of the vector.
\<close>

definition convertSTLToVertices :: "ModelMesh \<Rightarrow> real list" where
  "convertSTLToVertices mesh =
     fold (\<lambda>triangle vs. fold (\<lambda>va vs'. vs' @ va) (vertexData triangle) vs)
          (triangles mesh) []"

text \<open>
  \<^verbatim>\<open>createAxesVertices\<close> is a member of the viewer; it reads nothing of the viewer's
  mesh.
\<close>

definition createAxesVertices :: "ModelMesh \<Rightarrow> real list" where
  "createAxesVertices mesh =
     [0, 0, 0, 1, 0, 0, 0, 0, 1,
      AXIS_LENGTH, 0, 0, 1, 0, 0, 0, 0, 1,
      0, 0, 0, 0, 1, 0, 0, 0, 1,
      0, AXIS_LENGTH, 0, 0, 1, 0, 0, 0, 1,
      0, 0, 0, 0, 0, 1, 0, 0, 1,
      0, 0, AXIS_LENGTH, 0, 0, 1, 0, 0, 1]"

text \<open>
  How \<^verbatim>\<open>setupVertexAttributes\<close> lays a buffer out for the shader: vertex \<open>i\<close> starts at
  float \<open>i * VERTEX_COMPONENTS\<close>; its position is at offset 0, its color at offset
  \<open>POSITION_COMPONENTS\<close>, its normal at offset \<open>POSITION_COMPONENTS + COLOR_COMPONENTS\<close>.
\<close>

definition attribute3 :: "real list \<Rightarrow> nat \<Rightarrow> nat \<Rightarrow> vec3" where
  "attribute3 buffer i off =
     Vec3 (buffer ! (i * VERTEX_COMPONENTS + off))
          (buffer ! (i * VERTEX_COMPONENTS + off + 1))
          (buffer ! (i * VERTEX_COMPONENTS + off + 2))"

definition vertexPosition :: "real list \<Rightarrow> nat \<Rightarrow> vec3" where
  "vertexPosition buffer i = attribute3 buffer i 0"

definition vertexColor :: "real list \<Rightarrow> nat \<Rightarrow> vec3" where
  "vertexColor buffer i = attribute3 buffer i POSITION_COMPONENTS"

definition vertexNormal :: "real list \<Rightarrow> nat \<Rightarrow> vec3" where
  "vertexNormal buffer i = attribute3 buffer i (POSITION_COMPONENTS + COLOR_COMPONENTS)"

text \<open>
  \<^verbatim>\<open>renderAxes\<close> draws the axes buffer as \<^verbatim>\<open>GL_LINES\<close>: segment \<open>k\<close> runs from vertex
  \<open>k * AXIS_VERTICES\<close> to the next vertex. \<open>segmentVector\<close> is the vector from its start to
  its end, \<open>vec3_length\<close> the Euclidean length (\<^verbatim>\<open>glm::length\<close>).
\<close>

definition segmentStart :: "real list \<Rightarrow> nat \<Rightarrow> vec3" where
  "segmentStart buffer k = vertexPosition buffer (k * AXIS_VERTICES)"

definition segmentEnd :: "real list \<Rightarrow> nat \<Rightarrow> vec3" where
  "segmentEnd buffer k = vertexPosition buffer (k * AXIS_VERTICES + 1)"

definition segmentVector :: "real list \<Rightarrow> nat \<Rightarrow> vec3" where
  "segmentVector buffer k = vec3_sub (segmentEnd buffer k) (segmentStart buffer k)"

definition vec3_length :: "vec3 \<Rightarrow> real" where
  "vec3_length v = sqrt (dot v v)"

section \<open>The model matrix (viewer.cpp, GLM)\<close>

text \<open>
  \<^verbatim>\<open>glm::vec4\<close> and \<^verbatim>\<open>glm::mat4\<close>; a matrix is its four columns, as GLM stores it. The
  entries are computed, so they are \<open>float32\<close>.
\<close>

datatype vec4 = Vec4 (v4x: float32) (v4y: float32) (v4z: float32) (v4w: float32)

definition vec4_add :: "vec4 \<Rightarrow> vec4 \<Rightarrow> vec4" where
  "vec4_add a b =
     Vec4 (fadd (v4x a) (v4x b)) (fadd (v4y a) (v4y b)) (fadd (v4z a) (v4z b))
          (fadd (v4w a) (v4w b))"

definition vec4_mul :: "vec4 \<Rightarrow> float32 \<Rightarrow> vec4" where
  "vec4_mul a s = Vec4 (fmul (v4x a) s) (fmul (v4y a) s) (fmul (v4z a) s) (fmul (v4w a) s)"

datatype mat4 = Mat4 (col0: vec4) (col1: vec4) (col2: vec4) (col3: vec4)

text \<open>\<^verbatim>\<open>glm::mat4{1.0f}\<close>: the identity.\<close>

definition mat4_identity :: mat4 where
  "mat4_identity =
     Mat4 (Vec4 (Finite 1) (Finite 0) (Finite 0) (Finite 0))
          (Vec4 (Finite 0) (Finite 1) (Finite 0) (Finite 0))
          (Vec4 (Finite 0) (Finite 0) (Finite 1) (Finite 0))
          (Vec4 (Finite 0) (Finite 0) (Finite 0) (Finite 1))"

text \<open>
  \<^verbatim>\<open>glm::scale(m, v)\<close> multiplies the first three columns of \<open>m\<close> by the components of
  \<open>v\<close>; \<^verbatim>\<open>glm::translate(m, v)\<close> replaces the last column of \<open>m\<close> by
  \<^verbatim>\<open>m[0] * v[0] + m[1] * v[1] + m[2] * v[2] + m[3]\<close>. Both multiply \<open>m\<close> from the right.
\<close>

definition glm_scale :: "mat4 \<Rightarrow> fvec3 \<Rightarrow> mat4" where
  "glm_scale m v =
     Mat4 (vec4_mul (col0 m) (fx v)) (vec4_mul (col1 m) (fy v)) (vec4_mul (col2 m) (fz v))
          (col3 m)"

definition glm_translate :: "mat4 \<Rightarrow> fvec3 \<Rightarrow> mat4" where
  "glm_translate m v =
     Mat4 (col0 m) (col1 m) (col2 m)
          (vec4_add
             (vec4_add (vec4_add (vec4_mul (col0 m) (fx v)) (vec4_mul (col1 m) (fy v)))
                       (vec4_mul (col2 m) (fz v)))
             (col3 m))"

text \<open>The product of a matrix and a column vector.\<close>

definition mat4_mul_vec4 :: "mat4 \<Rightarrow> vec4 \<Rightarrow> vec4" where
  "mat4_mul_vec4 m v =
     vec4_add
       (vec4_add (vec4_add (vec4_mul (col0 m) (v4x v)) (vec4_mul (col1 m) (v4y v)))
                 (vec4_mul (col2 m) (v4z v)))
       (vec4_mul (col3 m) (v4w v))"

text \<open>
  Where the model matrix sends a vertex: the vertex stage multiplies the matrix with the
  position extended by 1.
\<close>

definition transformVertex :: "mat4 \<Rightarrow> vec3 \<Rightarrow> fvec3" where
  "transformVertex m v =
     (let r = mat4_mul_vec4 m (Vec4 (Finite (vx v)) (Finite (vy v)) (Finite (vz v)) (Finite 1))
      in FVec3 (v4x r) (v4y r) (v4z r))"

text \<open>
  The local \<^verbatim>\<open>scale\<close> of \<^verbatim>\<open>updateModelMatrix\<close>.
\<close>

definition modelScale :: "ModelMesh \<Rightarrow> float32" where
  "modelScale mesh =
     (let objectSize = fvec3_sub (to_fvec3 (max_bounds mesh)) (to_fvec3 (min_bounds mesh));
          maxDimension = fmax3 (fx objectSize) (fy objectSize) (fz objectSize);
          desiredSize = Finite MODEL_DESIRED_SIZE
      in fdiv desiredSize maxDimension)"

text \<open>
  \<^verbatim>\<open>updateModelMatrix\<close>: the matrix it stores in \<^verbatim>\<open>model\<close>.
\<close>

definition updateModelMatrix :: "ModelMesh \<Rightarrow> mat4" where
  "updateModelMatrix mesh =
     (let model = mat4_identity;
          s = modelScale mesh;
          model1 = glm_scale model (FVec3 s s s);
          model2 = glm_translate model1 (fvec3_mul (fvec3_neg (center mesh)) s)
      in model2)"

section \<open>Sample inputs\<close>

text \<open>
  A mesh of one triangle in the plane \<open>z = 0\<close>, with legs of length 4, and a mesh whose
  only triangle has all three corners at the point \<open>(1, 1, 1)\<close>. The derived fields are
  not yet computed.
\<close>

definition sampleTriangle :: ModelTriangle where
  "sampleTriangle =
     \<lparr>normal = Vec3 0 0 1, vertices = Array3 (Vec3 0 0 0) (Vec3 4 0 0) (Vec3 0 4 0)\<rparr>"

definition emptyMesh :: ModelMesh where
  "emptyMesh =
     \<lparr>triangles = [], min_bounds = vec3_zero, max_bounds = vec3_zero,
      center = FVec3 (Finite 0) (Finite 0) (Finite 0), scale = Finite 0\<rparr>"

definition sampleMesh :: ModelMesh where
  "sampleMesh = emptyMesh\<lparr>triangles := [sampleTriangle]\<rparr>"

definition pointTriangle :: ModelTriangle where
  "pointTriangle =
     \<lparr>normal = Vec3 0 0 1, vertices = Array3 (Vec3 1 1 1) (Vec3 1 1 1) (Vec3 1 1 1)\<rparr>"

definition pointMesh :: ModelMesh where
  "pointMesh = emptyMesh\<lparr>triangles := [pointTriangle]\<rparr>"

text \<open>
  A mesh whose only triangle has legs of length \<open>2\<^sup>-\<^sup>2\<^sup>0\<close>, below \<open>EPSILON\<close>.
\<close>

definition tinyTriangle :: ModelTriangle where
  "tinyTriangle =
     \<lparr>normal = Vec3 0 0 1,
      vertices = Array3 (Vec3 0 0 0) (Vec3 (1 / 1048576) 0 0) (Vec3 0 (1 / 1048576) 0)\<rparr>"

definition tinyMesh :: ModelMesh where
  "tinyMesh = emptyMesh\<lparr>triangles := [tinyTriangle]\<rparr>"





text \<open>
  Scenes as the importer may return them: one triangle over three vertices; the same
  with a second face that names vertex 5; a mesh without faces; no mesh at all.
\<close>

definition sampleAiMesh :: aiMesh where
  "sampleAiMesh =
     \<lparr>mVertices = [Vec3 0 0 0, Vec3 4 0 0, Vec3 0 4 0],
      mNormals = Some [Vec3 0 0 1, Vec3 0 0 1, Vec3 0 0 1],
      mFaces = [\<lparr>mIndices = [0, 1, 2]\<rparr>]\<rparr>"

definition sampleScene :: aiScene where
  "sampleScene = \<lparr>mMeshes = [sampleAiMesh]\<rparr>"

definition badIndexScene :: aiScene where
  "badIndexScene =
     \<lparr>mMeshes = [sampleAiMesh\<lparr>mFaces := [\<lparr>mIndices = [0, 1, 2]\<rparr>, \<lparr>mIndices = [0, 1, 5]\<rparr>]\<rparr>]\<rparr>"

definition noFaceScene :: aiScene where
  "noFaceScene = \<lparr>mMeshes = [sampleAiMesh\<lparr>mFaces := []\<rparr>]\<rparr>"

definition noMeshScene :: aiScene where
  "noMeshScene = \<lparr>mMeshes = []\<rparr>"

definition sampleImporter :: Importer where
  "sampleImporter filePath =
     (if filePath = ''good.stl'' then Inr sampleScene
      else if filePath = ''bad.stl'' then Inr badIndexScene
      else if filePath = ''nofaces.stl'' then Inr noFaceScene
      else if filePath = ''nomesh.stl'' then Inr noMeshScene
      else Inl ''Unable to open file'')"

definition newLoader :: ModelLoader where
  "newLoader = \<lparr>errorMessage = []\<rparr>"

section \<open>Rounding to binary32\<close>

lemma round_half_even_of_int [simp]: "round_half_even (of_int i) = i"
  by (simp add: round_half_even_def)

lemma round_half_even_lower: "of_int (round_half_even y) \<ge> y - 1 / 2"
  unfolding round_half_even_def Let_def by (auto; linarith)

lemma round_half_even_upper: "of_int (round_half_even y) \<le> y + 1 / 2"
  unfolding round_half_even_def Let_def by (auto; linarith)



lemma ulp_search_form:
  "\<exists>k\<le>n. ulp_search n q t a = q * 2 ^ k \<and> (k = 0 \<or> t * 2 ^ (k - 1) \<le> a)"
proof (induction n arbitrary: q t)
  case 0
  show ?case by simp
next
  case (Suc n)
  show ?case
  proof (cases "a < t")
    case True
    then show ?thesis by (intro exI [of _ 0]) simp
  next
    case False
    from Suc.IH [of "2 * q" "2 * t"] obtain k where k: "k \<le> n"
      and eq: "ulp_search n (2 * q) (2 * t) a = 2 * q * 2 ^ k"
      and lo: "k = 0 \<or> 2 * t * 2 ^ (k - 1) \<le> a"
      by blast
    have "t * 2 ^ k \<le> a"
    proof (cases k)
      case 0
      with False show ?thesis by simp
    next
      case (Suc j)
      with lo show ?thesis by simp
    qed
    with False k eq show ?thesis
      by (intro exI [of _ "Suc k"]) simp
  qed
qed

lemma MIN_SUBNORMAL_pos: "0 < MIN_SUBNORMAL"
  by (simp add: MIN_SUBNORMAL_def)

lemma ulp32_form:
  "\<exists>k\<le>253. ulp32 x = MIN_SUBNORMAL * 2 ^ k \<and>
     (k = 0 \<or> MIN_SUBNORMAL * 2 ^ (k + 23) \<le> \<bar>x\<bar>)"
proof -
  from ulp_search_form [of 253 MIN_SUBNORMAL "MIN_SUBNORMAL * 2 ^ 24" "\<bar>x\<bar>"]
  obtain k where k: "k \<le> 253"
    and eq: "ulp32 x = MIN_SUBNORMAL * 2 ^ k"
    and lo: "k = 0 \<or> MIN_SUBNORMAL * 2 ^ 24 * 2 ^ (k - 1) \<le> \<bar>x\<bar>"
    unfolding ulp32_def by blast
  have "MIN_SUBNORMAL * 2 ^ (k + 23) \<le> \<bar>x\<bar>" if "k \<noteq> 0"
  proof -
    from that obtain j where j: "k = Suc j" by (cases k) auto
    have "MIN_SUBNORMAL * 2 ^ (k + 23) = MIN_SUBNORMAL * 2 ^ 24 * 2 ^ (k - 1)"
      unfolding j by (simp only: power_add [symmetric] mult.assoc) simp
    moreover from lo that have "MIN_SUBNORMAL * 2 ^ 24 * 2 ^ (k - 1) \<le> \<bar>x\<bar>"
      by blast
    ultimately show ?thesis by (simp only:)
  qed
  with k eq show ?thesis by (intro exI [of _ k]) auto
qed

lemma ulp32_pos: "0 < ulp32 x"
proof -
  from ulp32_form [of x] obtain k where "ulp32 x = MIN_SUBNORMAL * 2 ^ k" by blast
  then show ?thesis using MIN_SUBNORMAL_pos by simp
qed


lemma MIN_SUBNORMAL_253: "MIN_SUBNORMAL * 2 ^ 253 = 2 ^ 104"
  by (simp add: MIN_SUBNORMAL_def)


text \<open>
  Every number \<open>m * 2\<^sup>e * MIN_SUBNORMAL\<close> with \<open>\<bar>m\<bar> < 2\<^sup>2\<^sup>4\<close> and \<open>e \<le> 253\<close> is a binary32
  number: rounding leaves it as it is.
\<close>

lemma round32_dyadic:
  assumes m: "\<bar>m\<bar> < 2 ^ 24" and e: "e \<le> 253"
    and x: "x = of_int m * 2 ^ e * MIN_SUBNORMAL"
  shows "round32 x = Finite x"
proof -
  from ulp32_form [of x] obtain k where eq: "ulp32 x = MIN_SUBNORMAL * 2 ^ k"
    and lo: "k = 0 \<or> MIN_SUBNORMAL * 2 ^ (k + 23) \<le> \<bar>x\<bar>"
    by blast
  have absx: "\<bar>x\<bar> = MIN_SUBNORMAL * (of_int \<bar>m\<bar> * 2 ^ e)"
    using MIN_SUBNORMAL_pos by (simp add: x abs_mult)
  have mlt: "(of_int \<bar>m\<bar> :: real) < 2 ^ 24"
    using m by (metis of_int_less_numeral_power_cancel_iff)
  have ke: "k \<le> e"
  proof (cases "k = 0")
    case True
    then show ?thesis by simp
  next
    case False
    with lo have "MIN_SUBNORMAL * 2 ^ (k + 23) \<le> MIN_SUBNORMAL * (of_int \<bar>m\<bar> * 2 ^ e)"
      by (simp add: absx)
    then have "(2::real) ^ (k + 23) \<le> of_int \<bar>m\<bar> * 2 ^ e"
      using MIN_SUBNORMAL_pos by (simp only: mult_le_cancel_left_pos)
    also have "\<dots> < 2 ^ 24 * 2 ^ e"
      using mlt by simp
    also have "\<dots> = (2::real) ^ (24 + e)"
      by (simp add: power_add)
    finally have "k + 23 < 24 + e"
      by simp
    then show ?thesis by simp
  qed
  then obtain d where d: "e = k + d"
    using le_Suc_ex by blast
  define u where "u = MIN_SUBNORMAL * 2 ^ k"
  have u: "0 < u" "ulp32 x = u"
    using MIN_SUBNORMAL_pos by (simp_all add: u_def eq)
  have x': "x = of_int (m * 2 ^ d) * u"
    by (simp add: x d power_add u_def)
  have quot: "x / ulp32 x = of_int (m * 2 ^ d)"
    using u by (simp only: x') simp
  have rh: "round_half_even (x / ulp32 x) = m * 2 ^ d"
    by (simp only: quot round_half_even_of_int)
  have r: "of_int (round_half_even (x / ulp32 x)) * ulp32 x = x"
    unfolding rh by (simp only: u(2) x' [symmetric])
  have "of_int \<bar>m\<bar> * (2::real) ^ e < 2 ^ 24 * 2 ^ e"
    using mlt by simp
  also have "(2::real) ^ 24 * 2 ^ e \<le> 2 ^ 24 * 2 ^ 253"
  proof -
    have "(2::real) ^ e \<le> 2 ^ 253"
      using e by (intro power_increasing) simp_all
    then show ?thesis
      by (simp only: mult_le_cancel_left_pos zero_less_power zero_less_numeral)
  qed
  finally have "MIN_SUBNORMAL * (of_int \<bar>m\<bar> * 2 ^ e) < MIN_SUBNORMAL * (2 ^ 24 * 2 ^ 253)"
    using MIN_SUBNORMAL_pos by (simp only: mult_less_cancel_left_pos)
  also have "MIN_SUBNORMAL * (2 ^ 24 * 2 ^ 253) = 2 ^ 128"
    by (simp add: MIN_SUBNORMAL_def)
  finally have "\<bar>x\<bar> < 2 ^ 128"
    unfolding absx .
  then show ?thesis
    unfolding round32_def Let_def r by auto
qed





text \<open>
  Conversely, every finite result of rounding is such a number, hence a binary32 number.
\<close>

lemma ulp_search_upper:
  "\<exists>k\<le>n. ulp_search n q t a = q * 2 ^ k \<and> (k = n \<or> a < t * 2 ^ k)"
proof (induction n arbitrary: q t)
  case 0
  show ?case by simp
next
  case (Suc n)
  show ?case
  proof (cases "a < t")
    case True
    then show ?thesis by (intro exI [of _ 0]) simp
  next
    case False
    from Suc.IH [of "2 * q" "2 * t"] obtain k where k: "k \<le> n"
      and eq: "ulp_search n (2 * q) (2 * t) a = 2 * q * 2 ^ k"
      and hi: "k = n \<or> a < 2 * t * 2 ^ k"
      by blast
    with False show ?thesis
      by (intro exI [of _ "Suc k"]) auto
  qed
qed

lemma ulp32_upper:
  "\<exists>k\<le>253. ulp32 x = MIN_SUBNORMAL * 2 ^ k \<and>
     (k = 253 \<or> \<bar>x\<bar> < MIN_SUBNORMAL * 2 ^ k * 2 ^ 24)"
proof -
  from ulp_search_upper [of 253 MIN_SUBNORMAL "MIN_SUBNORMAL * 2 ^ 24" "\<bar>x\<bar>"]
  obtain k where k: "k \<le> 253"
    and eq: "ulp32 x = MIN_SUBNORMAL * 2 ^ k"
    and hi: "k = 253 \<or> \<bar>x\<bar> < MIN_SUBNORMAL * 2 ^ 24 * 2 ^ k"
    unfolding ulp32_def by blast
  have "MIN_SUBNORMAL * 2 ^ 24 * 2 ^ k = MIN_SUBNORMAL * 2 ^ k * 2 ^ 24"
    by (simp only: mult.assoc mult.commute [of "2 ^ 24"])
  with k eq hi show ?thesis
    by (intro exI [of _ k]) (simp only: simp_thms)
qed

lemma round32_result_dyadic:
  assumes "round32 x = Finite r"
  shows "\<exists>m e. \<bar>m\<bar> < 2 ^ 24 \<and> e \<le> 253 \<and> r = of_int m * 2 ^ e * MIN_SUBNORMAL"
proof -
  from ulp32_upper [of x] obtain k where k: "k \<le> 253"
    and eq: "ulp32 x = MIN_SUBNORMAL * 2 ^ k"
    and hi: "k = 253 \<or> \<bar>x\<bar> < MIN_SUBNORMAL * 2 ^ k * 2 ^ 24"
    by blast
  define n where "n = round_half_even (x / ulp32 x)"
  define u where "u = ulp32 x"
  have u: "0 < u" "u = MIN_SUBNORMAL * 2 ^ k"
    using ulp32_pos [of x] eq by (simp_all add: u_def)
  from assms have r: "r = of_int n * u" and bound: "\<bar>of_int n * u\<bar> < 2 ^ 128"
    unfolding round32_def Let_def n_def u_def by (auto split: if_splits)
  have form: "r = of_int n * 2 ^ k * MIN_SUBNORMAL"
    by (simp add: r u(2))
  have small: "\<bar>n\<bar> \<le> 2 ^ 24"
  proof (cases "k = 253")
    case True
    have "u = 2 ^ 104"
      using u(2) True MIN_SUBNORMAL_253 by simp
    with bound have "\<bar>of_int n :: real\<bar> * 2 ^ 104 < 2 ^ 24 * 2 ^ 104"
      by (simp add: abs_mult)
    then have "\<bar>of_int n :: real\<bar> < 2 ^ 24"
      by (simp only: mult_less_cancel_right_pos zero_less_power zero_less_numeral)
    then have "\<bar>n\<bar> < 2 ^ 24"
      by (metis of_int_abs of_int_less_numeral_power_cancel_iff)
    then show ?thesis by simp
  next
    case False
    with hi have "\<bar>x\<bar> < u * 2 ^ 24"
      by (simp add: u(2))
    then have "\<bar>x\<bar> / u < 2 ^ 24"
      using u(1) by (simp add: pos_divide_less_eq mult.commute)
    then have y: "\<bar>x / u\<bar> < 2 ^ 24"
      using u(1) by (simp add: abs_divide)
    then have y': "x / u < 2 ^ 24" "- (2 ^ 24) < x / u"
      by (simp_all only: abs_less_iff minus_less_iff [of "x / u"])
    have rb: "of_int n \<le> x / u + 1 / 2" "x / u - 1 / 2 \<le> of_int n"
      unfolding n_def u_def by (rule round_half_even_upper, rule round_half_even_lower)
    have "(of_int n :: real) < of_int (2 ^ 24 + 1)"
      using rb(1) y'(1) by simp
    then have n1: "n < 2 ^ 24 + 1"
      by (simp only: of_int_less_iff)
    have "(of_int (- (2 ^ 24) - 1) :: real) < of_int n"
      using rb(2) y'(2) by simp
    then have n2: "- (2 ^ 24) - 1 < n"
      by (simp only: of_int_less_iff)
    from n1 n2 have "n \<le> 2 ^ 24" "- (2 ^ 24) \<le> n"
      by simp_all
    then show ?thesis by (simp only: abs_le_iff) simp
  qed
  show ?thesis
  proof (cases "\<bar>n\<bar> < 2 ^ 24")
    case True
    with k form show ?thesis by blast
  next
    case False
    with small have top: "\<bar>n\<bar> = 2 ^ 24" by simp
    have k': "k \<noteq> 253"
    proof
      assume "k = 253"
      then have "u = 2 ^ 104"
        using u(2) MIN_SUBNORMAL_253 by simp
      moreover have "\<bar>of_int n :: real\<bar> = 2 ^ 24"
        using top by (metis of_int_abs of_int_numeral of_int_power)
      ultimately have "\<bar>of_int n * u\<bar> = 2 ^ 128"
        by (simp add: abs_mult)
      with bound show False by simp
    qed
    from top consider "n = 2 ^ 24" | "n = - (2 ^ 24)"
      by (cases "0 \<le> n") simp_all
    then show ?thesis
    proof cases
      case 1
      have "r = of_int (2 ^ 23) * 2 ^ Suc k * MIN_SUBNORMAL"
        by (simp add: form 1)
      moreover have "\<bar>2 ^ 23 :: int\<bar> < 2 ^ 24" "Suc k \<le> 253"
        using k k' by simp_all
      ultimately show ?thesis by blast
    next
      case 2
      have "r = of_int (- (2 ^ 23)) * 2 ^ Suc k * MIN_SUBNORMAL"
        by (simp add: form 2)
      moreover have "\<bar>- (2 ^ 23) :: int\<bar> < 2 ^ 24" "Suc k \<le> 253"
        using k k' by simp_all
      ultimately show ?thesis by blast
    qed
  qed
qed

lemma round32_result_binary32: "round32 x = Finite r \<Longrightarrow> is_binary32 r"
proof -
  assume "round32 x = Finite r"
  from round32_result_dyadic [OF this] obtain m e where
    "\<bar>m\<bar> < 2 ^ 24" "e \<le> 253" "r = of_int m * 2 ^ e * MIN_SUBNORMAL"
    by blast
  then have "round32 r = Finite r"
    by (rule round32_dyadic)
  then show ?thesis by (simp add: is_binary32_def)
qed

text \<open>
  A finite result of rounding lies within half a spacing of the number rounded.
\<close>

lemma round32_error:
  assumes "round32 x = Finite r"
  shows "\<bar>r - x\<bar> \<le> ulp32 x / 2"
proof -
  define n where "n = round_half_even (x / ulp32 x)"
  from assms have r: "r = of_int n * ulp32 x"
    unfolding round32_def Let_def n_def by (auto split: if_splits)
  have "\<bar>of_int n - x / ulp32 x\<bar> \<le> 1 / 2"
    using round_half_even_upper [of "x / ulp32 x"] round_half_even_lower [of "x / ulp32 x"]
    unfolding n_def by linarith
  then have "\<bar>of_int n - x / ulp32 x\<bar> * ulp32 x \<le> 1 / 2 * ulp32 x"
    using ulp32_pos [of x] by (simp only: mult_le_cancel_right_pos)
  moreover have "\<bar>of_int n - x / ulp32 x\<bar> * ulp32 x = \<bar>r - x\<bar>"
  proof -
    have "(of_int n - x / ulp32 x) * ulp32 x = r - x"
      using ulp32_pos [of x] by (simp add: r left_diff_distrib)
    then have "\<bar>(of_int n - x / ulp32 x) * ulp32 x\<bar> = \<bar>r - x\<bar>"
      by (simp only:)
    then show ?thesis
      using ulp32_pos [of x] by (simp add: abs_mult)
  qed
  ultimately show ?thesis by simp
qed





text \<open>
  The binary32 numbers that the sample inputs meet.
\<close>

lemma round32_values:
  "round32 0 = Finite 0"
  "round32 1 = Finite 1"
  "round32 2 = Finite 2"
  "round32 4 = Finite 4"
  "round32 (1 / 2) = Finite (1 / 2)"
  "round32 (1 / 4) = Finite (1 / 4)"
  "round32 (3 / 8) = Finite (3 / 8)"
  "round32 (3 / 4) = Finite (3 / 4)"
  "round32 (- (3 / 4)) = Finite (- (3 / 4))"
  "round32 (- (9 / 32)) = Finite (- (9 / 32))"
  "round32 (15 / 32) = Finite (15 / 32)"
  "round32 (1 / 1048576) = Finite (1 / 1048576)"
  "round32 (1 / 2097152) = Finite (1 / 2097152)"
  "round32 1572864 = Finite 1572864"
proof -
  show "round32 0 = Finite 0"
    by (rule round32_dyadic [of 0 0]) simp_all
  show "round32 1 = Finite 1"
    by (rule round32_dyadic [of 1 149]) (simp_all add: MIN_SUBNORMAL_def)
  show "round32 2 = Finite 2"
    by (rule round32_dyadic [of 1 150]) (simp_all add: MIN_SUBNORMAL_def)
  show "round32 4 = Finite 4"
    by (rule round32_dyadic [of 1 151]) (simp_all add: MIN_SUBNORMAL_def)
  show "round32 (1 / 2) = Finite (1 / 2)"
    by (rule round32_dyadic [of 1 148]) (simp_all add: MIN_SUBNORMAL_def)
  show "round32 (1 / 4) = Finite (1 / 4)"
    by (rule round32_dyadic [of 1 147]) (simp_all add: MIN_SUBNORMAL_def)
  show "round32 (3 / 8) = Finite (3 / 8)"
    by (rule round32_dyadic [of 3 146]) (simp_all add: MIN_SUBNORMAL_def)
  show "round32 (3 / 4) = Finite (3 / 4)"
    by (rule round32_dyadic [of 3 147]) (simp_all add: MIN_SUBNORMAL_def)
  show "round32 (- (3 / 4)) = Finite (- (3 / 4))"
    by (rule round32_dyadic [of "- 3" 147]) (simp_all add: MIN_SUBNORMAL_def)
  show "round32 (- (9 / 32)) = Finite (- (9 / 32))"
    by (rule round32_dyadic [of "- 9" 144]) (simp_all add: MIN_SUBNORMAL_def)
  show "round32 (15 / 32) = Finite (15 / 32)"
    by (rule round32_dyadic [of 15 144]) (simp_all add: MIN_SUBNORMAL_def)
  show "round32 (1 / 1048576) = Finite (1 / 1048576)"
    by (rule round32_dyadic [of 1 129]) (simp_all add: MIN_SUBNORMAL_def)
  show "round32 (1 / 2097152) = Finite (1 / 2097152)"
    by (rule round32_dyadic [of 1 128]) (simp_all add: MIN_SUBNORMAL_def)
  show "round32 1572864 = Finite 1572864"
    by (rule round32_dyadic [of 3 168]) (simp_all add: MIN_SUBNORMAL_def)
qed



section \<open>Normalization: bounds\<close>

lemma upt_TRIANGLE_VERTICES: "[0..<TRIANGLE_VERTICES] = [0, 1, 2]"
  by (simp add: TRIANGLE_VERTICES_def upt_rec)

lemma expandTriangle_fold:
  "expandTriangle t m = fold expandBounds (array3_list (vertices t)) m"
  by (cases "vertices t") (simp add: expandTriangle_def upt_TRIANGLE_VERTICES)

lemma fold_expandTriangle:
  "fold expandTriangle ts m = fold expandBounds (concat (map (\<lambda>t. array3_list (vertices t)) ts)) m"
  by (induction ts arbitrary: m) (simp_all add: expandTriangle_fold)

lemma expandBounds_triangles [simp]: "triangles (expandBounds v m) = triangles m"
  and expandBounds_center [simp]: "center (expandBounds v m) = center m"
  and expandBounds_scale [simp]: "scale (expandBounds v m) = scale m"
  by (simp_all add: expandBounds_def)

lemma fold_expandBounds_min:
  "min_bounds (fold expandBounds vs m) =
     Vec3 (fold (\<lambda>v a. min a (vx v)) vs (vx (min_bounds m)))
          (fold (\<lambda>v a. min a (vy v)) vs (vy (min_bounds m)))
          (fold (\<lambda>v a. min a (vz v)) vs (vz (min_bounds m)))"
  by (induction vs arbitrary: m) (simp_all add: expandBounds_def)

lemma fold_expandBounds_max:
  "max_bounds (fold expandBounds vs m) =
     Vec3 (fold (\<lambda>v a. max a (vx v)) vs (vx (max_bounds m)))
          (fold (\<lambda>v a. max a (vy v)) vs (vy (max_bounds m)))
          (fold (\<lambda>v a. max a (vz v)) vs (vz (max_bounds m)))"
  by (induction vs arbitrary: m) (simp_all add: expandBounds_def)







lemma calculateBounds_nonempty:
  "triangles mesh = t0 # ts \<Longrightarrow>
   calculateBounds mesh =
     fold expandBounds (concat (map (\<lambda>t. array3_list (vertices t)) (triangles mesh)))
       (mesh\<lparr>min_bounds := array3_get (vertices t0) 0,
             max_bounds := array3_get (vertices t0) 0\<rparr>)"
  by (simp add: calculateBounds_def fold_expandTriangle expandTriangle_fold)

lemma fold_expandBounds_triangles [simp]:
  "triangles (fold expandBounds vs m) = triangles m"
  by (induction vs arbitrary: m) simp_all

lemma fold_expandBounds_center [simp]:
  "center (fold expandBounds vs m) = center m"
  by (induction vs arbitrary: m) simp_all

lemma fold_expandBounds_scale [simp]:
  "scale (fold expandBounds vs m) = scale m"
  by (induction vs arbitrary: m) simp_all

lemma calculateBounds_triangles [simp]: "triangles (calculateBounds mesh) = triangles mesh"
  by (cases "triangles mesh")
    (simp_all add: calculateBounds_def fold_expandTriangle expandTriangle_fold)

lemma calculateCenterAndScale_fields [simp]:
  "triangles (calculateCenterAndScale mesh) = triangles mesh"
  "min_bounds (calculateCenterAndScale mesh) = min_bounds mesh"
  "max_bounds (calculateCenterAndScale mesh) = max_bounds mesh"
  by (simp_all add: calculateCenterAndScale_def Let_def)








section \<open>Normalization: center and scale\<close>

lemma mesh_defs_eval:
  "to_fvec3 (Vec3 a b c) = FVec3 (Finite a) (Finite b) (Finite c)"
  "fvec3_add (FVec3 a1 a2 a3) (FVec3 b1 b2 b3) = FVec3 (fadd a1 b1) (fadd a2 b2) (fadd a3 b3)"
  "fvec3_sub (FVec3 a1 a2 a3) (FVec3 b1 b2 b3) = FVec3 (fsub a1 b1) (fsub a2 b2) (fsub a3 b3)"
  "fvec3_mul (FVec3 a1 a2 a3) s = FVec3 (fmul a1 s) (fmul a2 s) (fmul a3 s)"
  "fvec3_neg (FVec3 a1 a2 a3) = FVec3 (fneg a1) (fneg a2) (fneg a3)"
  by (simp_all add: to_fvec3_def fvec3_add_def fvec3_sub_def fvec3_mul_def fvec3_neg_def)

lemma fsub_Finite: "fsub (Finite a) (Finite b) = round32 (a - b)"
  by (simp add: fsub_def)




lemmas normalize_eval =
  normalizeMesh_def calculateBounds_def calculateCenterAndScale_def emptyMesh_def
  expandTriangle_def expandBounds_def upt_TRIANGLE_VERTICES Let_def mesh_defs_eval
  fsub_Finite fmax3_def fmax_def EPSILON_def DEFAULT_SCALE_def CENTER_CALCULATION_FACTOR_def
  vec3_zero_def round32_values

lemma sampleMesh_normalized:
  "normalizeMesh sampleMesh =
     sampleMesh\<lparr>min_bounds := Vec3 0 0 0, max_bounds := Vec3 4 4 0,
                center := FVec3 (Finite 2) (Finite 2) (Finite 0), scale := Finite (1 / 4)\<rparr>"
  by (simp add: normalize_eval sampleMesh_def sampleTriangle_def)





lemma pointMesh_normalized:
  "normalizeMesh pointMesh =
     pointMesh\<lparr>min_bounds := Vec3 1 1 1, max_bounds := Vec3 1 1 1,
               center := FVec3 (Finite 1) (Finite 1) (Finite 1), scale := Finite 1\<rparr>"
  by (simp add: normalize_eval pointMesh_def pointTriangle_def)

lemma tinyMesh_normalized:
  "normalizeMesh tinyMesh =
     tinyMesh\<lparr>min_bounds := Vec3 0 0 0,
              max_bounds := Vec3 (1 / 1048576) (1 / 1048576) 0,
              center := FVec3 (Finite (1 / 2097152)) (Finite (1 / 2097152)) (Finite 0),
              scale := Finite 1\<rparr>"
  by (simp add: normalize_eval tinyMesh_def tinyTriangle_def)












lemma fold_expandBounds_record:
  "fold expandBounds vs m =
     m\<lparr>min_bounds := min_bounds (fold expandBounds vs m),
       max_bounds := max_bounds (fold expandBounds vs m)\<rparr>"
  by (induction vs arbitrary: m) (simp_all add: expandBounds_def)

lemma calculateBounds_idem:
  "calculateBounds (calculateCenterAndScale (calculateBounds mesh)) =
   calculateCenterAndScale (calculateBounds mesh)"
proof (cases "triangles mesh")
  case Nil
  then show ?thesis by (simp add: calculateBounds_def calculateCenterAndScale_def)
next
  case (Cons t0 ts)
  let ?n = "calculateCenterAndScale (calculateBounds mesh)"
  have tn: "triangles ?n = t0 # ts" using Cons by simp
  have mn: "min_bounds (calculateBounds ?n) = min_bounds ?n"
    unfolding calculateBounds_nonempty [OF tn] fold_expandBounds_min
    by (simp add: calculateBounds_nonempty [OF Cons] fold_expandBounds_min Cons)
  have mx: "max_bounds (calculateBounds ?n) = max_bounds ?n"
    unfolding calculateBounds_nonempty [OF tn] fold_expandBounds_max
    by (simp add: calculateBounds_nonempty [OF Cons] fold_expandBounds_max Cons)
  have "calculateBounds ?n =
     ?n\<lparr>min_bounds := min_bounds (calculateBounds ?n),
         max_bounds := max_bounds (calculateBounds ?n)\<rparr>"
    unfolding calculateBounds_nonempty [OF tn]
    by (subst fold_expandBounds_record) simp
  then show ?thesis by (simp add: mn mx)
qed

lemma calculateCenterAndScale_idem:
  "calculateCenterAndScale (calculateCenterAndScale m) = calculateCenterAndScale m"
  by (simp add: calculateCenterAndScale_def Let_def)

text \<open>
  C9. Normalization is idempotent: for a mesh with at least one triangle, running the
  bounds, center and scale computation a second time over the same triangles gives the
  same mesh, hence the same \<open>min_bounds\<close>, \<open>max_bounds\<close>, \<open>center\<close> and \<open>scale\<close>.
\<close>

theorem normalization_idempotent:
  assumes "triangles mesh \<noteq> []"
  shows "normalizeMesh (normalizeMesh mesh) = normalizeMesh mesh \<and>
    min_bounds (normalizeMesh (normalizeMesh mesh)) = min_bounds (normalizeMesh mesh) \<and>
    max_bounds (normalizeMesh (normalizeMesh mesh)) = max_bounds (normalizeMesh mesh) \<and>
    center (normalizeMesh (normalizeMesh mesh)) = center (normalizeMesh mesh) \<and>
    scale (normalizeMesh (normalizeMesh mesh)) = scale (normalizeMesh mesh)"
proof -
  have "normalizeMesh (normalizeMesh mesh) = normalizeMesh mesh"
    unfolding normalizeMesh_def calculateBounds_idem calculateCenterAndScale_idem ..
  then show ?thesis by simp
qed

theorem normalization_idempotent_witness:
  "triangles sampleMesh \<noteq> [] \<and>
   normalizeMesh (normalizeMesh sampleMesh) =
     sampleMesh\<lparr>min_bounds := Vec3 0 0 0, max_bounds := Vec3 4 4 0,
                center := FVec3 (Finite 2) (Finite 2) (Finite 0), scale := Finite (1 / 4)\<rparr>"
proof -
  have ne: "triangles sampleMesh \<noteq> []"
    by (simp add: sampleMesh_def)
  from normalization_idempotent [OF ne] ne show ?thesis
    by (simp add: sampleMesh_normalized)
qed

section \<open>The vertex buffer of the mesh\<close>

lemma fold_append_acc:
  "fold (\<lambda>va vs'. vs' @ va) xss acc = acc @ concat xss"
  by (induction xss arbitrary: acc) simp_all

lemma convertSTLToVertices_concat:
  "convertSTLToVertices mesh = concat (map (\<lambda>t. concat (vertexData t)) (triangles mesh))"
proof -
  have "fold (\<lambda>triangle vs. fold (\<lambda>va vs'. vs' @ va) (vertexData triangle) vs) ts acc =
        acc @ concat (map (\<lambda>t. concat (vertexData t)) ts)" for ts acc
    by (induction ts arbitrary: acc) (simp_all add: fold_append_acc)
  then show ?thesis by (simp add: convertSTLToVertices_def)
qed

lemma vertexData_floats:
  "concat (vertexData t) =
     vertexArray t (array3_get (vertices t) 0) @
     vertexArray t (array3_get (vertices t) 1) @
     vertexArray t (array3_get (vertices t) 2)"
  by (cases "vertices t") (simp add: vertexData_def)

lemma length_vertexArray [simp]: "length (vertexArray t v) = 9"
  by (simp add: vertexArray_def)

lemma length_vertexData [simp]: "length (concat (vertexData t)) = 27"
  by (simp add: vertexData_floats)

lemma length_concat_uniform:
  "(\<And>x. length (f x) = n) \<Longrightarrow> length (concat (map f xs)) = n * length xs"
  by (induction xs) simp_all

lemma drop_concat_uniform:
  "(\<And>x. length (f x) = n) \<Longrightarrow>
   drop (n * t) (concat (map f xs)) = concat (map f (drop t xs))"
proof (induction xs arbitrary: t)
  case Nil
  show ?case by simp
next
  case (Cons x xs)
  show ?case
  proof (cases t)
    case 0
    then show ?thesis by simp
  next
    case (Suc k)
    have "drop (n * Suc k) (f x @ concat (map f xs)) = drop (n * k) (concat (map f xs))"
      using Cons.prems [of x] by simp
    then show ?thesis using Suc Cons.IH [OF Cons.prems, of k] by simp
  qed
qed

lemma length_convertSTLToVertices:
  "length (convertSTLToVertices mesh) = 27 * length (triangles mesh)"
  unfolding convertSTLToVertices_concat
  by (rule length_concat_uniform) simp

lemma drop_convertSTLToVertices:
  assumes "t < length (triangles mesh)"
  shows "\<exists>rest. drop (27 * t) (convertSTLToVertices mesh) =
           concat (vertexData (triangles mesh ! t)) @ rest"
proof -
  have "drop (27 * t) (convertSTLToVertices mesh) =
        concat (map (\<lambda>t. concat (vertexData t)) (drop t (triangles mesh)))"
    unfolding convertSTLToVertices_concat
    by (rule drop_concat_uniform) simp
  also have "drop t (triangles mesh) = triangles mesh ! t # drop (Suc t) (triangles mesh)"
    using assms by (simp add: Cons_nth_drop_Suc)
  finally show ?thesis by simp
qed

lemma vertex_floats_at:
  assumes t: "t < length (triangles mesh)" and j: "j < 3"
  shows "take 9 (drop (27 * t + 9 * j) (convertSTLToVertices mesh)) =
           vertexArray (triangles mesh ! t) (array3_get (vertices (triangles mesh ! t)) j)"
proof -
  from drop_convertSTLToVertices [OF t] obtain rest where
    d: "drop (27 * t) (convertSTLToVertices mesh) =
          concat (vertexData (triangles mesh ! t)) @ rest" ..
  have "drop (27 * t + 9 * j) (convertSTLToVertices mesh) =
        drop (9 * j) (drop (27 * t) (convertSTLToVertices mesh))"
    by (simp add: add.commute)
  then have e: "take 9 (drop (27 * t + 9 * j) (convertSTLToVertices mesh)) =
        take 9 (drop (9 * j) (concat (vertexData (triangles mesh ! t)) @ rest))"
    by (simp add: d)
  from j have "j = 0 \<or> j = 1 \<or> j = 2" by arith
  then show ?thesis
    unfolding e vertexData_floats by auto
qed

text \<open>
  C7. The vertex buffer of a mesh has 27 floats per triangle. The nine floats of vertex
  \<open>j\<close> of triangle \<open>t\<close> start at float \<open>27 * t + 9 * j\<close>: the position of the vertex,
  then the constant model color, then the normal of the triangle. For a mesh of a single
  triangle the buffer has exactly 27 floats, and floats \<open>[6, 9)\<close>, \<open>[15, 18)\<close> and
  \<open>[24, 27)\<close> are the normal of the triangle.
\<close>

theorem vertex_buffer_layout:
  "length (convertSTLToVertices mesh) = 27 * length (triangles mesh) \<and>
   (\<forall>t<length (triangles mesh). \<forall>j<3.
      take 9 (drop (27 * t + 9 * j) (convertSTLToVertices mesh)) =
        [vx (array3_get (vertices (triangles mesh ! t)) j),
         vy (array3_get (vertices (triangles mesh ! t)) j),
         vz (array3_get (vertices (triangles mesh ! t)) j),
         MODEL_COLOR_R, MODEL_COLOR_G, MODEL_COLOR_B,
         vx (normal (triangles mesh ! t)),
         vy (normal (triangles mesh ! t)),
         vz (normal (triangles mesh ! t))]) \<and>
   (\<forall>triangle. triangles mesh = [triangle] \<longrightarrow>
      length (convertSTLToVertices mesh) = 27 \<and>
      take 3 (drop 6 (convertSTLToVertices mesh)) =
        [vx (normal triangle), vy (normal triangle), vz (normal triangle)] \<and>
      take 3 (drop 15 (convertSTLToVertices mesh)) =
        [vx (normal triangle), vy (normal triangle), vz (normal triangle)] \<and>
      take 3 (drop 24 (convertSTLToVertices mesh)) =
        [vx (normal triangle), vy (normal triangle), vz (normal triangle)])"
proof -
  have one: "length (convertSTLToVertices mesh) = 27 \<and>
      take 3 (drop 6 (convertSTLToVertices mesh)) =
        [vx (normal triangle), vy (normal triangle), vz (normal triangle)] \<and>
      take 3 (drop 15 (convertSTLToVertices mesh)) =
        [vx (normal triangle), vy (normal triangle), vz (normal triangle)] \<and>
      take 3 (drop 24 (convertSTLToVertices mesh)) =
        [vx (normal triangle), vy (normal triangle), vz (normal triangle)]"
    if "triangles mesh = [triangle]" for triangle
    using that
    by (simp add: convertSTLToVertices_concat vertexData_floats vertexArray_def)
  show ?thesis
    using length_convertSTLToVertices [of mesh] vertex_floats_at [of _ mesh] one
    by (simp add: vertexArray_def)
qed

theorem vertex_buffer_layout_witness:
  "triangles sampleMesh = [sampleTriangle] \<and>
   length (convertSTLToVertices sampleMesh) = 27 \<and>
   take 9 (drop 9 (convertSTLToVertices sampleMesh)) =
     [4, 0, 0, MODEL_COLOR_R, MODEL_COLOR_G, MODEL_COLOR_B, 0, 0, 1] \<and>
   take 3 (drop 6 (convertSTLToVertices sampleMesh)) = [0, 0, 1] \<and>
   take 3 (drop 15 (convertSTLToVertices sampleMesh)) = [0, 0, 1] \<and>
   take 3 (drop 24 (convertSTLToVertices sampleMesh)) = [0, 0, 1]"
proof -
  have t: "triangles sampleMesh = [sampleTriangle]"
    by (simp add: sampleMesh_def)
  note layout = vertex_buffer_layout [of sampleMesh]
  from layout t have single:
    "length (convertSTLToVertices sampleMesh) = 27 \<and>
     take 3 (drop 6 (convertSTLToVertices sampleMesh)) =
       [vx (normal sampleTriangle), vy (normal sampleTriangle), vz (normal sampleTriangle)] \<and>
     take 3 (drop 15 (convertSTLToVertices sampleMesh)) =
       [vx (normal sampleTriangle), vy (normal sampleTriangle), vz (normal sampleTriangle)] \<and>
     take 3 (drop 24 (convertSTLToVertices sampleMesh)) =
       [vx (normal sampleTriangle), vy (normal sampleTriangle), vz (normal sampleTriangle)]"
    by blast
  from layout have "\<forall>t<length (triangles sampleMesh). \<forall>j<3.
      take 9 (drop (27 * t + 9 * j) (convertSTLToVertices sampleMesh)) =
        [vx (array3_get (vertices (triangles sampleMesh ! t)) j),
         vy (array3_get (vertices (triangles sampleMesh ! t)) j),
         vz (array3_get (vertices (triangles sampleMesh ! t)) j),
         MODEL_COLOR_R, MODEL_COLOR_G, MODEL_COLOR_B,
         vx (normal (triangles sampleMesh ! t)),
         vy (normal (triangles sampleMesh ! t)),
         vz (normal (triangles sampleMesh ! t))]"
    by blast
  then have "(0::nat) < length (triangles sampleMesh) \<longrightarrow> (1::nat) < 3 \<longrightarrow>
      take 9 (drop (27 * 0 + 9 * 1) (convertSTLToVertices sampleMesh)) =
        [vx (array3_get (vertices (triangles sampleMesh ! 0)) 1),
         vy (array3_get (vertices (triangles sampleMesh ! 0)) 1),
         vz (array3_get (vertices (triangles sampleMesh ! 0)) 1),
         MODEL_COLOR_R, MODEL_COLOR_G, MODEL_COLOR_B,
         vx (normal (triangles sampleMesh ! 0)),
         vy (normal (triangles sampleMesh ! 0)),
         vz (normal (triangles sampleMesh ! 0))]"
    by blast
  then have second: "take 9 (drop 9 (convertSTLToVertices sampleMesh)) =
     [4, 0, 0, MODEL_COLOR_R, MODEL_COLOR_G, MODEL_COLOR_B, 0, 0, 1]"
    by (simp add: t sampleTriangle_def)
  from t single second show ?thesis
    by (simp add: sampleTriangle_def)
qed

section \<open>The axes buffer\<close>

lemmas buffer_defs =
  segmentStart_def segmentEnd_def segmentVector_def vertexPosition_def vertexColor_def
  attribute3_def VERTEX_COMPONENTS_def POSITION_COMPONENTS_def COLOR_COMPONENTS_def
  AXIS_VERTICES_def AXIS_LENGTH_def createAxesVertices_def

lemma axes_positions:
  "segmentStart (createAxesVertices mesh) 0 = Vec3 0 0 0"
  "segmentEnd (createAxesVertices mesh) 0 = Vec3 2 0 0"
  "segmentStart (createAxesVertices mesh) 1 = Vec3 0 0 0"
  "segmentEnd (createAxesVertices mesh) 1 = Vec3 0 2 0"
  "segmentStart (createAxesVertices mesh) 2 = Vec3 0 0 0"
  "segmentEnd (createAxesVertices mesh) 2 = Vec3 0 0 2"
  by (simp_all add: buffer_defs)

lemma axes_colors:
  "vertexColor (createAxesVertices mesh) 0 = Vec3 1 0 0"
  "vertexColor (createAxesVertices mesh) 1 = Vec3 1 0 0"
  "vertexColor (createAxesVertices mesh) 2 = Vec3 0 1 0"
  "vertexColor (createAxesVertices mesh) 3 = Vec3 0 1 0"
  "vertexColor (createAxesVertices mesh) 4 = Vec3 0 0 1"
  "vertexColor (createAxesVertices mesh) 5 = Vec3 0 0 1"
  by (simp_all add: buffer_defs)

lemma axes_vectors:
  "segmentVector (createAxesVertices mesh) 0 = Vec3 2 0 0"
  "segmentVector (createAxesVertices mesh) 1 = Vec3 0 2 0"
  "segmentVector (createAxesVertices mesh) 2 = Vec3 0 0 2"
  unfolding segmentVector_def axes_positions by (simp_all add: vec3_sub_def)

lemma axes_lengths:
  "vec3_length (segmentVector (createAxesVertices mesh) 0) = 2"
  "vec3_length (segmentVector (createAxesVertices mesh) 1) = 2"
  "vec3_length (segmentVector (createAxesVertices mesh) 2) = 2"
  unfolding axes_vectors by (simp_all add: vec3_length_def dot_def)

text \<open>
  The axis segments are not of unit length: the segment of the X axis runs from the
  origin to \<open>(2, 0, 0)\<close>.
\<close>

theorem axes_unit_length_counterexample:
  "length (createAxesVertices emptyMesh) = 54 \<and>
   segmentStart (createAxesVertices emptyMesh) 0 = Vec3 0 0 0 \<and>
   segmentEnd (createAxesVertices emptyMesh) 0 = Vec3 2 0 0 \<and>
   vec3_length (segmentVector (createAxesVertices emptyMesh) 0) \<noteq> 1"
  unfolding axes_positions axes_lengths by (simp add: createAxesVertices_def)

text \<open>
  C8, amended. The axes buffer does not depend on the mesh. It holds three segments of
  two vertices each: from the origin to \<open>(AXIS_LENGTH, 0, 0)\<close> in red, to
  \<open>(0, AXIS_LENGTH, 0)\<close> in green and to \<open>(0, 0, AXIS_LENGTH)\<close> in blue. The segments
  are pairwise orthogonal and each has length \<open>AXIS_LENGTH = 2\<close>.
\<close>

theorem axes_buffer_segments:
  "createAxesVertices mesh = createAxesVertices mesh' \<and>
   length (createAxesVertices mesh) = 3 * AXIS_VERTICES * VERTEX_COMPONENTS \<and>
   segmentStart (createAxesVertices mesh) 0 = Vec3 0 0 0 \<and>
   segmentEnd (createAxesVertices mesh) 0 = Vec3 AXIS_LENGTH 0 0 \<and>
   vertexColor (createAxesVertices mesh) 0 = Vec3 1 0 0 \<and>
   vertexColor (createAxesVertices mesh) 1 = Vec3 1 0 0 \<and>
   segmentStart (createAxesVertices mesh) 1 = Vec3 0 0 0 \<and>
   segmentEnd (createAxesVertices mesh) 1 = Vec3 0 AXIS_LENGTH 0 \<and>
   vertexColor (createAxesVertices mesh) 2 = Vec3 0 1 0 \<and>
   vertexColor (createAxesVertices mesh) 3 = Vec3 0 1 0 \<and>
   segmentStart (createAxesVertices mesh) 2 = Vec3 0 0 0 \<and>
   segmentEnd (createAxesVertices mesh) 2 = Vec3 0 0 AXIS_LENGTH \<and>
   vertexColor (createAxesVertices mesh) 4 = Vec3 0 0 1 \<and>
   vertexColor (createAxesVertices mesh) 5 = Vec3 0 0 1 \<and>
   dot (segmentVector (createAxesVertices mesh) 0) (segmentVector (createAxesVertices mesh) 1) = 0 \<and>
   dot (segmentVector (createAxesVertices mesh) 0) (segmentVector (createAxesVertices mesh) 2) = 0 \<and>
   dot (segmentVector (createAxesVertices mesh) 1) (segmentVector (createAxesVertices mesh) 2) = 0 \<and>
   vec3_length (segmentVector (createAxesVertices mesh) 0) = 2 \<and>
   vec3_length (segmentVector (createAxesVertices mesh) 1) = 2 \<and>
   vec3_length (segmentVector (createAxesVertices mesh) 2) = 2 \<and>
   AXIS_LENGTH = 2"
proof -
  have same: "createAxesVertices mesh = createAxesVertices mesh'"
    by (simp add: createAxesVertices_def)
  have len: "length (createAxesVertices mesh) = 3 * AXIS_VERTICES * VERTEX_COMPONENTS"
    by (simp add: createAxesVertices_def AXIS_VERTICES_def VERTEX_COMPONENTS_def)
  have orth:
    "dot (segmentVector (createAxesVertices mesh) 0) (segmentVector (createAxesVertices mesh) 1) = 0"
    "dot (segmentVector (createAxesVertices mesh) 0) (segmentVector (createAxesVertices mesh) 2) = 0"
    "dot (segmentVector (createAxesVertices mesh) 1) (segmentVector (createAxesVertices mesh) 2) = 0"
    unfolding axes_vectors by (simp_all add: dot_def)
  have al: "AXIS_LENGTH = 2" by (simp add: AXIS_LENGTH_def)
  from same len orth al show ?thesis
    unfolding axes_positions axes_colors axes_lengths by simp
qed

section \<open>The model matrix\<close>

lemmas matrix_eval =
  updateModelMatrix_def modelScale_def transformVertex_def glm_scale_def glm_translate_def
  mat4_mul_vec4_def mat4_identity_def vec4_add_def vec4_mul_def mesh_defs_eval fsub_Finite
  fmax3_def fmax_def Let_def MODEL_DESIRED_SIZE_def round32_values

lemma sampleMesh_modelScale: "modelScale (normalizeMesh sampleMesh) = Finite (3 / 8)"
  by (simp add: sampleMesh_normalized matrix_eval)

text \<open>
  C1. The claim is that the model matrix sends a vertex \<open>v\<close> to \<open>(v - center) * scale\<close>,
  so that the center of the bounding box lands at the origin. For the sample mesh
  (bounding box from \<open>(0, 0, 0)\<close> to \<open>(4, 4, 0)\<close>, center \<open>(2, 2, 0)\<close>, scale
  \<open>1.5 / 4 = 3 / 8\<close>) the matrix sends the center to \<open>(15 / 32, 15 / 32, 0)\<close>, whereas
  \<open>(center - center) * scale\<close> is the origin. Every intermediate result is a binary32
  number at this input, so no operation rounds.
\<close>

theorem model_matrix_misses_origin:
  "center (normalizeMesh sampleMesh) = FVec3 (Finite 2) (Finite 2) (Finite 0) \<and>
   modelScale (normalizeMesh sampleMesh) = Finite (3 / 8) \<and>
   updateModelMatrix (normalizeMesh sampleMesh) =
     Mat4 (Vec4 (Finite (3 / 8)) (Finite 0) (Finite 0) (Finite 0))
          (Vec4 (Finite 0) (Finite (3 / 8)) (Finite 0) (Finite 0))
          (Vec4 (Finite 0) (Finite 0) (Finite (3 / 8)) (Finite 0))
          (Vec4 (Finite (- (9 / 32))) (Finite (- (9 / 32))) (Finite 0) (Finite 1)) \<and>
   transformVertex
     (Mat4 (Vec4 (Finite (3 / 8)) (Finite 0) (Finite 0) (Finite 0))
           (Vec4 (Finite 0) (Finite (3 / 8)) (Finite 0) (Finite 0))
           (Vec4 (Finite 0) (Finite 0) (Finite (3 / 8)) (Finite 0))
           (Vec4 (Finite (- (9 / 32))) (Finite (- (9 / 32))) (Finite 0) (Finite 1)))
     (Vec3 2 2 0) = FVec3 (Finite (15 / 32)) (Finite (15 / 32)) (Finite 0) \<and>
   vec3_mul (vec3_sub (Vec3 2 2 0) (Vec3 2 2 0)) (3 / 8) = Vec3 0 0 0"
proof -
  have c: "center (normalizeMesh sampleMesh) = FVec3 (Finite 2) (Finite 2) (Finite 0)"
    by (simp add: sampleMesh_normalized)
  have m: "updateModelMatrix (normalizeMesh sampleMesh) =
     Mat4 (Vec4 (Finite (3 / 8)) (Finite 0) (Finite 0) (Finite 0))
          (Vec4 (Finite 0) (Finite (3 / 8)) (Finite 0) (Finite 0))
          (Vec4 (Finite 0) (Finite 0) (Finite (3 / 8)) (Finite 0))
          (Vec4 (Finite (- (9 / 32))) (Finite (- (9 / 32))) (Finite 0) (Finite 1))"
    by (simp add: sampleMesh_normalized matrix_eval)
  have t: "transformVertex
     (Mat4 (Vec4 (Finite (3 / 8)) (Finite 0) (Finite 0) (Finite 0))
           (Vec4 (Finite 0) (Finite (3 / 8)) (Finite 0) (Finite 0))
           (Vec4 (Finite 0) (Finite 0) (Finite (3 / 8)) (Finite 0))
           (Vec4 (Finite (- (9 / 32))) (Finite (- (9 / 32))) (Finite 0) (Finite 1)))
     (Vec3 2 2 0) = FVec3 (Finite (15 / 32)) (Finite (15 / 32)) (Finite 0)"
    by (simp add: matrix_eval)
  have o: "vec3_mul (vec3_sub (Vec3 2 2 0) (Vec3 2 2 0)) (3 / 8) = Vec3 0 0 0"
    by (simp add: vec3_mul_def vec3_sub_def)
  from c sampleMesh_modelScale m t o show ?thesis
    by (simp only: simp_thms)
qed

text \<open>
  C5. The claim is that for a bounding box of zero or below-epsilon extent the scale of
  the transform is finite and positive and comes from the scale-defaults-to-1 policy.
  For the mesh of a single point the normalizer sets \<open>scale\<close> to 1, but
  \<^verbatim>\<open>updateModelMatrix\<close> divides \<open>MODEL_DESIRED_SIZE\<close> by the largest dimension 0: its
  scale is infinite and the matrix has no finite entry. For the mesh of extent
  \<open>2\<^sup>-\<^sup>2\<^sup>0\<close> it divides by that extent and scales by 1572864.
\<close>

theorem model_scale_divides_by_zero:
  "largestDimension (normalizeMesh pointMesh) = 0 \<and>
   scale (normalizeMesh pointMesh) = Finite 1 \<and>
   modelScale (normalizeMesh pointMesh) = PosInf \<and>
   updateModelMatrix (normalizeMesh pointMesh) =
     Mat4 (Vec4 PosInf NaN NaN NaN) (Vec4 NaN PosInf NaN NaN) (Vec4 NaN NaN PosInf NaN)
          (Vec4 NaN NaN NaN NaN) \<and>
   largestDimension (normalizeMesh tinyMesh) = 1 / 1048576 \<and>
   scale (normalizeMesh tinyMesh) = Finite 1 \<and>
   modelScale (normalizeMesh tinyMesh) = Finite 1572864"
proof -
  have point: "largestDimension (normalizeMesh pointMesh) = 0 \<and>
     scale (normalizeMesh pointMesh) = Finite 1 \<and>
     modelScale (normalizeMesh pointMesh) = PosInf \<and>
     updateModelMatrix (normalizeMesh pointMesh) =
       Mat4 (Vec4 PosInf NaN NaN NaN) (Vec4 NaN PosInf NaN NaN) (Vec4 NaN NaN PosInf NaN)
            (Vec4 NaN NaN NaN NaN)"
    by (simp add: pointMesh_normalized largestDimension_def matrix_eval)
  have tiny: "largestDimension (normalizeMesh tinyMesh) = 1 / 1048576 \<and>
     scale (normalizeMesh tinyMesh) = Finite 1 \<and>
     modelScale (normalizeMesh tinyMesh) = Finite 1572864"
    by (simp add: tinyMesh_normalized largestDimension_def matrix_eval)
  from point tiny show ?thesis by (simp only: simp_thms)
qed

section \<open>The loader: success and the error message\<close>

text \<open>
  A step that succeeds returns the loader it was given.
\<close>

lemma createTriangleVertices_success:
  "createTriangleVertices loader face am js triangle = (True, loader', triangle') \<Longrightarrow>
   loader' = loader"
  by (induction js arbitrary: triangle) (auto split: if_splits)

lemma createTriangle_success:
  "createTriangle loader face am triangle = (True, loader', triangle') \<Longrightarrow> loader' = loader"
  by (auto simp: createTriangle_def split: prod.splits bool.splits
      dest: createTriangleVertices_success)

lemma processFaces_success:
  "processFaces loader am faces mesh = (True, loader', mesh') \<Longrightarrow> loader' = loader"
proof (induction faces arbitrary: mesh)
  case Nil
  then show ?case by simp
next
  case (Cons face faces)
  show ?case
  proof (cases "mNumIndices face = TRIANGLE_VERTICES")
    case False
    with Cons.prems have "processFaces loader am faces mesh = (True, loader', mesh')"
      by simp
    then show ?thesis by (rule Cons.IH)
  next
    case True
    obtain ok l1 tri where ct: "createTriangle loader face am emptyTriangle = (ok, l1, tri)"
      by (cases "createTriangle loader face am emptyTriangle") auto
    show ?thesis
    proof (cases ok)
      case False
      with Cons.prems True ct show ?thesis by simp
    next
      case ok: True
      with ct have l1: "l1 = loader" by (auto dest: createTriangle_success)
      from Cons.prems True ct ok l1
      have "processFaces loader am faces (mesh\<lparr>triangles := triangles mesh @ [tri]\<rparr>) =
            (True, loader', mesh')"
        by simp
      then show ?thesis by (rule Cons.IH)
    qed
  qed
qed

lemma processMesh_success:
  "processMesh loader am mesh = (True, loader', mesh') \<Longrightarrow> loader' = loader"
  by (auto simp: processMesh_def split: if_splits dest: processFaces_success)

lemma processMeshes_success:
  "processMeshes loader ams mesh = (True, loader', mesh') \<Longrightarrow> loader' = loader"
proof (induction ams arbitrary: loader mesh)
  case Nil
  then show ?case by simp
next
  case (Cons am ams)
  obtain ok l1 m1 where pm: "processMesh loader am mesh = (ok, l1, m1)"
    by (cases "processMesh loader am mesh") auto
  show ?case
  proof (cases ok)
    case False
    with Cons.prems pm show ?thesis by simp
  next
    case True
    with pm have l1: "l1 = loader" by (auto dest: processMesh_success)
    from Cons.prems pm True have "processMeshes l1 ams m1 = (True, loader', mesh')"
      by simp
    then have "loader' = l1" by (rule Cons.IH)
    with l1 show ?thesis by simp
  qed
qed

lemma loadFile_success_loader:
  assumes "loadFile importer loader filePath mesh = (True, loader', mesh')"
  shows "loader' = loader\<lparr>errorMessage := []\<rparr>"
  using assms
  by (auto simp: loadFile_def Let_def loadFileWithAssimp_def validateScene_def
      validateProcessedMesh_def processScene_def
      split: sum.splits prod.splits option.splits bool.splits if_splits
      dest: processMeshes_success)

text \<open>
  C10. Whatever the loader held before the call (so after any sequence of earlier
  calls), when \<^verbatim>\<open>loadFile\<close> returns success \<^verbatim>\<open>getErrorMessage\<close> returns the empty
  string: the call clears the message on entry and only a failing path sets it.
\<close>

theorem loadFile_success_clears_error:
  assumes "fst (loadFile importer loader filePath mesh)"
  shows "getErrorMessage (fst (snd (loadFile importer loader filePath mesh))) = []"
proof -
  obtain ok loader' mesh' where r: "loadFile importer loader filePath mesh = (ok, loader', mesh')"
    by (cases "loadFile importer loader filePath mesh") auto
  with assms have "loadFile importer loader filePath mesh = (True, loader', mesh')"
    by simp
  then have "loader' = loader\<lparr>errorMessage := []\<rparr>"
    by (rule loadFile_success_loader)
  with r show ?thesis by (simp add: getErrorMessage_def)
qed

text \<open>
  The sample imports, evaluated.
\<close>

lemma upt_three: "[0..<3] = [0, Suc 0, 2]"
  by (simp add: upt_rec)

lemmas loader_defs = upt_three
  loadFile_def loadFileWithAssimp_def validateScene_def validateProcessedMesh_def
  processScene_def processMesh_def createTriangle_def setError_def
  HasMeshes_def HasFaces_def HasPositions_def HasNormals_def mNumIndices_def
  mNumVertices_def emptyTriangle_def upt_TRIANGLE_VERTICES TRIANGLE_VERTICES_def Let_def

lemmas sample_defs =
  sampleImporter_def sampleScene_def badIndexScene_def noFaceScene_def noMeshScene_def
  sampleAiMesh_def newLoader_def emptyMesh_def

lemma to_string_5: "to_string 5 = ''5''"
  by (subst to_string.simps) (simp add: digit_char_def)

lemma to_string_0: "to_string 0 = ''0''"
  by (subst to_string.simps) (simp add: digit_char_def)

lemma loadFile_bad:
  "loadFile sampleImporter loader ''bad.stl'' emptyMesh =
     (False,
      loader\<lparr>errorMessage := ''Invalid vertex index in face data: Index: 5''\<rparr>,
      emptyMesh\<lparr>triangles := [sampleTriangle]\<rparr>)"
  by (simp add: loader_defs sample_defs to_string_5 sampleTriangle_def vec3_zero_def)

lemma loadFile_good:
  "loadFile sampleImporter loader ''good.stl'' emptyMesh =
     (True, loader\<lparr>errorMessage := []\<rparr>, normalizeMesh sampleMesh)"
  by (simp add: loader_defs sample_defs sampleTriangle_def vec3_zero_def normalizeMesh_def
      sampleMesh_def)

theorem loadFile_success_clears_error_witness:
  "getErrorMessage (fst (snd (loadFile sampleImporter newLoader ''bad.stl'' emptyMesh))) =
     ''Invalid vertex index in face data: Index: 5'' \<and>
   fst (loadFile sampleImporter
          (fst (snd (loadFile sampleImporter newLoader ''bad.stl'' emptyMesh)))
          ''good.stl'' emptyMesh) \<and>
   getErrorMessage
     (fst (snd (loadFile sampleImporter
                  (fst (snd (loadFile sampleImporter newLoader ''bad.stl'' emptyMesh)))
                  ''good.stl'' emptyMesh))) = []"
proof -
  let ?failed = "fst (snd (loadFile sampleImporter newLoader ''bad.stl'' emptyMesh))"
  have ok: "fst (loadFile sampleImporter ?failed ''good.stl'' emptyMesh)"
    by (simp add: loadFile_good)
  have stale: "getErrorMessage ?failed = ''Invalid vertex index in face data: Index: 5''"
    by (simp add: loadFile_bad getErrorMessage_def)
  from loadFile_success_clears_error [OF ok] ok stale show ?thesis
    by simp
qed

section \<open>The loader: scenes without faces\<close>

lemma loadFile_no_mesh:
  assumes "importer filePath = Inr scene" and "mMeshes scene = []"
  shows "loadFile importer loader filePath mesh =
     (False,
      loader\<lparr>errorMessage :=
        ''No mesh data found in the file: File might be empty or corrupted''\<rparr>,
      mesh)"
  using assms
  by (simp add: loadFile_def loadFileWithAssimp_def validateScene_def HasMeshes_def
      setError_def Let_def)

lemma loadFile_first_mesh_no_faces:
  assumes "importer filePath = Inr scene" and "mMeshes scene = am # ams"
    and "mFaces am = []"
  shows "loadFile importer loader filePath mesh =
     (False,
      loader\<lparr>errorMessage :=
        ''Mesh does not contain face data: Mesh index: '' @
          to_string (length (triangles mesh) div 1000)\<rparr>,
      mesh)"
  using assms
  by (simp add: loadFile_def loadFileWithAssimp_def validateScene_def HasMeshes_def
      processScene_def processMesh_def HasFaces_def setError_def Let_def)

lemma loadFile_success_triangles:
  assumes "loadFile importer loader filePath mesh = (True, loader', mesh')"
  shows "triangles mesh' \<noteq> []"
  using assms
  by (auto simp: loadFile_def Let_def validateProcessedMesh_def
      split: prod.splits option.splits bool.splits if_splits)

text \<open>
  C6. When the importer returns a scene none of whose meshes has a face (in particular a
  scene without meshes), \<^verbatim>\<open>loadFile\<close> returns failure, leaves the caller's mesh as it
  was, and reports that the file has no mesh data or that the mesh has no face data. A
  mesh with an empty triangle list fails \<^verbatim>\<open>validateProcessedMesh\<close>, and whenever
  \<^verbatim>\<open>loadFile\<close> returns success the mesh it leaves has at least one triangle.
\<close>

theorem import_without_faces_fails:
  "(importer filePath = Inr scene \<and> (\<forall>am\<in>set (mMeshes scene). mFaces am = []) \<longrightarrow>
      \<not> fst (loadFile importer loader filePath mesh) \<and>
      snd (snd (loadFile importer loader filePath mesh)) = mesh \<and>
      getErrorMessage (fst (snd (loadFile importer loader filePath mesh))) =
        (if mMeshes scene = []
         then ''No mesh data found in the file: File might be empty or corrupted''
         else ''Mesh does not contain face data: Mesh index: '' @
                to_string (length (triangles mesh) div 1000))) \<and>
   (triangles mesh = [] \<longrightarrow>
      \<not> fst (validateProcessedMesh loader mesh) \<and>
      getErrorMessage (snd (validateProcessedMesh loader mesh)) =
        ''No triangle data could be extracted from the file: Model might contain only points/lines or unsupported geometry'') \<and>
   (fst (loadFile importer loader filePath mesh) \<longrightarrow>
      triangles (snd (snd (loadFile importer loader filePath mesh))) \<noteq> [])"
proof -
  have a: "\<not> fst (loadFile importer loader filePath mesh) \<and>
      snd (snd (loadFile importer loader filePath mesh)) = mesh \<and>
      getErrorMessage (fst (snd (loadFile importer loader filePath mesh))) =
        (if mMeshes scene = []
         then ''No mesh data found in the file: File might be empty or corrupted''
         else ''Mesh does not contain face data: Mesh index: '' @
                to_string (length (triangles mesh) div 1000))"
    if imp: "importer filePath = Inr scene"
      and nf: "\<forall>am\<in>set (mMeshes scene). mFaces am = []"
  proof (cases "mMeshes scene")
    case Nil
    with loadFile_no_mesh [of importer filePath scene loader mesh] imp show ?thesis
      by (simp add: getErrorMessage_def)
  next
    case (Cons am ams)
    with nf have "mFaces am = []" by simp
    with loadFile_first_mesh_no_faces [of importer filePath scene am ams loader mesh] imp Cons
    show ?thesis
      by (simp add: getErrorMessage_def)
  qed
  have b: "\<not> fst (validateProcessedMesh loader mesh) \<and>
      getErrorMessage (snd (validateProcessedMesh loader mesh)) =
        ''No triangle data could be extracted from the file: Model might contain only points/lines or unsupported geometry''"
    if "triangles mesh = []"
    using that by (simp add: validateProcessedMesh_def setError_def getErrorMessage_def)
  have c: "triangles (snd (snd (loadFile importer loader filePath mesh))) \<noteq> []"
    if "fst (loadFile importer loader filePath mesh)"
  proof -
    obtain ok loader' mesh' where
      r: "loadFile importer loader filePath mesh = (ok, loader', mesh')"
      by (cases "loadFile importer loader filePath mesh") auto
    with that have "loadFile importer loader filePath mesh = (True, loader', mesh')"
      by simp
    then have "triangles mesh' \<noteq> []" by (rule loadFile_success_triangles)
    with r show ?thesis by simp
  qed
  from a b c show ?thesis by blast
qed

theorem import_without_faces_fails_witness:
  "\<not> fst (loadFile sampleImporter newLoader ''nofaces.stl'' emptyMesh) \<and>
   getErrorMessage (fst (snd (loadFile sampleImporter newLoader ''nofaces.stl'' emptyMesh))) =
     ''Mesh does not contain face data: Mesh index: 0'' \<and>
   \<not> fst (loadFile sampleImporter newLoader ''nomesh.stl'' emptyMesh) \<and>
   getErrorMessage (fst (snd (loadFile sampleImporter newLoader ''nomesh.stl'' emptyMesh))) =
     ''No mesh data found in the file: File might be empty or corrupted'' \<and>
   \<not> fst (validateProcessedMesh newLoader emptyMesh) \<and>
   fst (loadFile sampleImporter newLoader ''good.stl'' emptyMesh) \<and>
   triangles (snd (snd (loadFile sampleImporter newLoader ''good.stl'' emptyMesh))) =
     [sampleTriangle]"
proof -
  have i1: "sampleImporter ''nofaces.stl'' = Inr noFaceScene"
    and i2: "sampleImporter ''nomesh.stl'' = Inr noMeshScene"
    by (simp_all add: sampleImporter_def)
  have f1: "\<forall>am\<in>set (mMeshes noFaceScene). mFaces am = []"
    and f2: "\<forall>am\<in>set (mMeshes noMeshScene). mFaces am = []"
    by (simp_all add: noFaceScene_def noMeshScene_def)
  have m1: "mMeshes noFaceScene \<noteq> []" and m2: "mMeshes noMeshScene = []"
    by (simp_all add: noFaceScene_def noMeshScene_def)
  have e: "triangles emptyMesh = []"
    by (simp add: emptyMesh_def)
  have g: "fst (loadFile sampleImporter newLoader ''good.stl'' emptyMesh)"
    by (simp add: loadFile_good)
  have t: "triangles (snd (snd (loadFile sampleImporter newLoader ''good.stl'' emptyMesh))) =
     [sampleTriangle]"
    by (simp add: loadFile_good normalizeMesh_def sampleMesh_def)
  from import_without_faces_fails
         [of sampleImporter "''nofaces.stl''" noFaceScene newLoader emptyMesh]
       import_without_faces_fails
         [of sampleImporter "''nomesh.stl''" noMeshScene newLoader emptyMesh]
       i1 i2 f1 f2 m1 m2 e g t
  show ?thesis
    by (simp add: to_string_0)
qed

section \<open>The loader: a face with an index out of range\<close>

text \<open>
  The import of the scene whose second face names vertex 5 of 3 fails with the
  invalid-index error, and the triangle of the first face stays in the caller's mesh,
  which was empty before the call.
\<close>

theorem bad_index_keeps_triangles_counterexample:
  "\<not> fst (loadFile sampleImporter newLoader ''bad.stl'' emptyMesh) \<and>
   getErrorMessage (fst (snd (loadFile sampleImporter newLoader ''bad.stl'' emptyMesh))) =
     ''Invalid vertex index in face data: Index: 5'' \<and>
   triangles emptyMesh = [] \<and>
   triangles (snd (snd (loadFile sampleImporter newLoader ''bad.stl'' emptyMesh))) =
     [sampleTriangle]"
  by (simp add: loadFile_bad getErrorMessage_def) (simp add: emptyMesh_def)

lemma createTriangleVertices_in_range:
  "\<forall>j\<in>set js. mIndices face ! j < mNumVertices am \<Longrightarrow>
   \<exists>triangle'. createTriangleVertices loader face am js triangle = (True, loader, triangle')"
  by (induction js arbitrary: triangle) simp_all

lemma createTriangleVertices_out_of_range:
  "\<exists>j\<in>set js. mNumVertices am \<le> mIndices face ! j \<Longrightarrow>
   \<exists>j\<in>set js. \<exists>triangle'.
     mNumVertices am \<le> mIndices face ! j \<and>
     createTriangleVertices loader face am js triangle =
       (False,
        setError loader ''Invalid vertex index in face data''
          (''Index: '' @ to_string (mIndices face ! j)),
        triangle')"
proof (induction js arbitrary: triangle)
  case Nil
  then show ?case by simp
next
  case (Cons k ks)
  show ?case
  proof (cases "mNumVertices am \<le> mIndices face ! k")
    case True
    then show ?thesis by auto
  next
    case False
    with Cons.prems have "\<exists>j\<in>set ks. mNumVertices am \<le> mIndices face ! j" by auto
    from Cons.IH [OF this] False show ?thesis by auto
  qed
qed

lemma triangle_indices:
  assumes "isTriangle face"
  shows "set (mIndices face) = {mIndices face ! 0, mIndices face ! 1, mIndices face ! 2}"
proof -
  from assms have "length (mIndices face) = 3"
    by (simp add: isTriangle_def mNumIndices_def TRIANGLE_VERTICES_def)
  then obtain a b c where "mIndices face = [a, b, c]"
    by (cases "mIndices face") (auto simp: length_Suc_conv numeral_3_eq_3)
  then show ?thesis by auto
qed

lemma createTriangle_in_range:
  assumes "isTriangle face" and "faceInRange am face"
  shows "\<exists>triangle'. createTriangle loader face am triangle = (True, loader, triangle')"
proof -
  have "\<forall>j\<in>set [0..<TRIANGLE_VERTICES]. mIndices face ! j < mNumVertices am"
    using assms by (simp add: upt_TRIANGLE_VERTICES faceInRange_def triangle_indices)
  from createTriangleVertices_in_range [OF this, of loader triangle]
  show ?thesis by (auto simp: createTriangle_def)
qed

lemma createTriangle_out_of_range:
  assumes "isTriangle face" and "\<not> faceInRange am face"
  shows "\<exists>index\<in>set (mIndices face). \<exists>triangle'.
     mNumVertices am \<le> index \<and>
     createTriangle loader face am triangle =
       (False,
        setError loader ''Invalid vertex index in face data''
          (''Index: '' @ to_string index),
        triangle')"
proof -
  have "\<exists>j\<in>set [0..<TRIANGLE_VERTICES]. mNumVertices am \<le> mIndices face ! j"
    using assms by (auto simp: upt_TRIANGLE_VERTICES faceInRange_def triangle_indices)
  from createTriangleVertices_out_of_range [OF this, of loader triangle]
  obtain j triangle' where j: "j \<in> set [0..<TRIANGLE_VERTICES]"
    and b: "mNumVertices am \<le> mIndices face ! j"
    and r: "createTriangleVertices loader face am [0..<TRIANGLE_VERTICES] triangle =
       (False,
        setError loader ''Invalid vertex index in face data''
          (''Index: '' @ to_string (mIndices face ! j)),
        triangle')"
    by blast
  from j have "mIndices face ! j \<in> set (mIndices face)"
    by (auto simp: upt_TRIANGLE_VERTICES triangle_indices [OF assms(1)])
  with b r show ?thesis by (auto simp: createTriangle_def)
qed

lemma processFaces_in_range:
  "trianglesInRange am good \<Longrightarrow>
   \<exists>extracted.
     length extracted = length (filter isTriangle good) \<and>
     processFaces loader am (good @ rest) mesh =
       processFaces loader am rest (mesh\<lparr>triangles := triangles mesh @ extracted\<rparr>)"
proof (induction good arbitrary: mesh)
  case Nil
  show ?case by simp
next
  case (Cons face faces)
  from Cons.prems have tail: "trianglesInRange am faces"
    by (simp add: trianglesInRange_def)
  show ?case
  proof (cases "isTriangle face")
    case False
    from Cons.IH [OF tail, of mesh] False show ?thesis
      by (simp add: isTriangle_def)
  next
    case True
    with Cons.prems have "faceInRange am face"
      by (simp add: trianglesInRange_def)
    from createTriangle_in_range [OF True this, of loader emptyTriangle]
    obtain tri where ct: "createTriangle loader face am emptyTriangle = (True, loader, tri)" ..
    from Cons.IH [OF tail, of "mesh\<lparr>triangles := triangles mesh @ [tri]\<rparr>"]
    obtain ext where len: "length ext = length (filter isTriangle faces)"
      and pf: "processFaces loader am (faces @ rest)
                 (mesh\<lparr>triangles := triangles mesh @ [tri]\<rparr>) =
               processFaces loader am rest (mesh\<lparr>triangles := triangles mesh @ tri # ext\<rparr>)"
      by auto
    have "length (tri # ext) = length (filter isTriangle (face # faces))"
      using len True by simp
    moreover have "processFaces loader am ((face # faces) @ rest) mesh =
       processFaces loader am rest (mesh\<lparr>triangles := triangles mesh @ tri # ext\<rparr>)"
      using True ct pf by (simp add: isTriangle_def)
    ultimately show ?thesis by blast
  qed
qed

lemma processFaces_out_of_range:
  assumes "isTriangle bad" and "\<not> faceInRange am bad"
  shows "\<exists>index\<in>set (mIndices bad).
     mNumVertices am \<le> index \<and>
     processFaces loader am (bad # rest) mesh =
       (False,
        setError loader ''Invalid vertex index in face data''
          (''Index: '' @ to_string index),
        mesh)"
proof -
  from createTriangle_out_of_range [OF assms, of loader emptyTriangle]
  obtain index triangle' where "index \<in> set (mIndices bad)" "mNumVertices am \<le> index"
    "createTriangle loader bad am emptyTriangle =
       (False,
        setError loader ''Invalid vertex index in face data''
          (''Index: '' @ to_string index),
        triangle')"
    by blast
  with assms(1) show ?thesis
    by (auto simp: isTriangle_def)
qed

lemma processMesh_clean:
  assumes "cleanMesh am"
  shows "\<exists>extracted.
     length extracted = length (filter isTriangle (mFaces am)) \<and>
     processMesh loader am mesh =
       (True, loader, mesh\<lparr>triangles := triangles mesh @ extracted\<rparr>)"
proof -
  from assms have "trianglesInRange am (mFaces am)" by (simp add: cleanMesh_def)
  from processFaces_in_range [OF this, of loader "[]" mesh] assms show ?thesis
    by (simp add: processMesh_def cleanMesh_def)
qed

lemma processMeshes_clean:
  "\<forall>am\<in>set before. cleanMesh am \<Longrightarrow>
   \<exists>extracted.
     length extracted = length (filter isTriangle (concat (map mFaces before))) \<and>
     processMeshes loader (before @ rest) mesh =
       processMeshes loader rest (mesh\<lparr>triangles := triangles mesh @ extracted\<rparr>)"
proof (induction before arbitrary: mesh)
  case Nil
  show ?case by simp
next
  case (Cons am ams)
  from Cons.prems have "cleanMesh am" by simp
  from processMesh_clean [OF this, of loader mesh]
  obtain e1 where l1: "length e1 = length (filter isTriangle (mFaces am))"
    and p1: "processMesh loader am mesh =
       (True, loader, mesh\<lparr>triangles := triangles mesh @ e1\<rparr>)"
    by blast
  from Cons.prems have "\<forall>am\<in>set ams. cleanMesh am" by simp
  from Cons.IH [OF this, of "mesh\<lparr>triangles := triangles mesh @ e1\<rparr>"]
  obtain e2 where l2: "length e2 = length (filter isTriangle (concat (map mFaces ams)))"
    and p2: "processMeshes loader (ams @ rest) (mesh\<lparr>triangles := triangles mesh @ e1\<rparr>) =
       processMeshes loader rest (mesh\<lparr>triangles := triangles mesh @ e1 @ e2\<rparr>)"
    by auto
  have "length (e1 @ e2) = length (filter isTriangle (concat (map mFaces (am # ams))))"
    using l1 l2 by simp
  moreover have "processMeshes loader ((am # ams) @ rest) mesh =
       processMeshes loader rest (mesh\<lparr>triangles := triangles mesh @ e1 @ e2\<rparr>)"
    using p1 p2 by simp
  ultimately show ?case by blast
qed

text \<open>
  C2, amended. Let the importer return a scene in which a face of three indices names a
  vertex index at or beyond the vertex count of its mesh, the mesh has positions, and
  nothing before that face is rejected (the meshes before are clean, the triangles
  before it in its mesh are in range). Then \<^verbatim>\<open>loadFile\<close> fails with the invalid-index
  error naming such an index of the face, and the caller's mesh is left with one more
  triangle for every triangle face met before the bad one, appended to the triangles it
  held on entry; its bounds, center and scale are as on entry.
\<close>

theorem bad_index_fails_import:
  assumes imp: "importer filePath = Inr scene"
    and meshes: "mMeshes scene = before @ am # after"
    and before: "\<forall>m\<in>set before. cleanMesh m"
    and pos: "HasPositions am"
    and faces: "mFaces am = good @ bad # rest"
    and good: "trianglesInRange am good"
    and bad: "isTriangle bad" "\<not> faceInRange am bad"
  shows "\<exists>extracted. \<exists>index\<in>set (mIndices bad).
     mNumVertices am \<le> index \<and>
     length extracted = length (filter isTriangle (concat (map mFaces before) @ good)) \<and>
     loadFile importer loader filePath mesh =
       (False,
        loader\<lparr>errorMessage :=
          ''Invalid vertex index in face data: Index: '' @ to_string index\<rparr>,
        mesh\<lparr>triangles := triangles mesh @ extracted\<rparr>)"
proof -
  let ?l0 = "loader\<lparr>errorMessage := []\<rparr>"
  from processMeshes_clean [OF before, of ?l0 "am # after" mesh]
  obtain e1 where l1: "length e1 = length (filter isTriangle (concat (map mFaces before)))"
    and p1: "processMeshes ?l0 (before @ am # after) mesh =
       processMeshes ?l0 (am # after) (mesh\<lparr>triangles := triangles mesh @ e1\<rparr>)"
    by blast
  let ?m1 = "mesh\<lparr>triangles := triangles mesh @ e1\<rparr>"
  from processFaces_in_range [OF good, of ?l0 "bad # rest" ?m1]
  obtain e2 where l2: "length e2 = length (filter isTriangle good)"
    and p2: "processFaces ?l0 am (good @ bad # rest) ?m1 =
       processFaces ?l0 am (bad # rest) (mesh\<lparr>triangles := triangles mesh @ e1 @ e2\<rparr>)"
    by auto
  let ?m2 = "mesh\<lparr>triangles := triangles mesh @ e1 @ e2\<rparr>"
  from processFaces_out_of_range [OF bad, of ?l0 rest ?m2]
  obtain index where i: "index \<in> set (mIndices bad)" and ge: "mNumVertices am \<le> index"
    and p3: "processFaces ?l0 am (bad # rest) ?m2 =
       (False,
        setError ?l0 ''Invalid vertex index in face data'' (''Index: '' @ to_string index),
        ?m2)"
    by blast
  have pm: "processMesh ?l0 am ?m1 =
       (False,
        setError ?l0 ''Invalid vertex index in face data'' (''Index: '' @ to_string index),
        ?m2)"
    using pos faces p2 p3 by (simp add: processMesh_def HasFaces_def)
  have ps: "processScene ?l0 scene mesh =
       (False,
        setError ?l0 ''Invalid vertex index in face data'' (''Index: '' @ to_string index),
        ?m2)"
    using meshes p1 pm by (simp add: processScene_def)
  have "loadFile importer loader filePath mesh =
       (False,
        loader\<lparr>errorMessage :=
          ''Invalid vertex index in face data: Index: '' @ to_string index\<rparr>,
        ?m2)"
    using imp meshes ps
    by (simp add: loadFile_def loadFileWithAssimp_def validateScene_def HasMeshes_def
        setError_def Let_def)
  moreover have "length (e1 @ e2) =
      length (filter isTriangle (concat (map mFaces before) @ good))"
    using l1 l2 by simp
  ultimately show ?thesis using i ge by blast
qed

theorem bad_index_fails_import_witness:
  "\<not> fst (loadFile sampleImporter newLoader ''bad.stl'' sampleMesh) \<and>
   getErrorMessage (fst (snd (loadFile sampleImporter newLoader ''bad.stl'' sampleMesh))) =
     ''Invalid vertex index in face data: Index: 5'' \<and>
   length (triangles (snd (snd (loadFile sampleImporter newLoader ''bad.stl'' sampleMesh)))) =
     2"
proof -
  let ?am = "sampleAiMesh\<lparr>mFaces := [\<lparr>mIndices = [0, 1, 2]\<rparr>, \<lparr>mIndices = [0, 1, 5]\<rparr>]\<rparr>"
  have imp: "sampleImporter ''bad.stl'' = Inr badIndexScene"
    by (simp add: sampleImporter_def)
  have meshes: "mMeshes badIndexScene = [] @ ?am # []"
    by (simp add: badIndexScene_def)
  have before: "\<forall>m\<in>set []. cleanMesh m"
    by simp
  have pos: "HasPositions ?am"
    by (simp add: HasPositions_def sampleAiMesh_def)
  have faces: "mFaces ?am = [\<lparr>mIndices = [0, 1, 2]\<rparr>] @ \<lparr>mIndices = [0, 1, 5]\<rparr> # []"
    by simp
  have good: "trianglesInRange ?am [\<lparr>mIndices = [0, 1, 2]\<rparr>]"
    by (simp add: trianglesInRange_def faceInRange_def mNumVertices_def sampleAiMesh_def)
  have bad1: "isTriangle \<lparr>mIndices = [0, 1, 5]\<rparr>"
    by (simp add: isTriangle_def mNumIndices_def TRIANGLE_VERTICES_def)
  have bad2: "\<not> faceInRange ?am \<lparr>mIndices = [0, 1, 5]\<rparr>"
    by (simp add: faceInRange_def mNumVertices_def sampleAiMesh_def)
  have tri: "isTriangle \<lparr>mIndices = [0, 1, 2]\<rparr>"
    by (simp add: isTriangle_def mNumIndices_def TRIANGLE_VERTICES_def)
  have one: "triangles sampleMesh = [sampleTriangle]"
    by (simp add: sampleMesh_def)
  note r = bad_index_fails_import
         [of sampleImporter "''bad.stl''" badIndexScene "[]" ?am "[]"
             "[\<lparr>mIndices = [0, 1, 2]\<rparr>]" "\<lparr>mIndices = [0, 1, 5]\<rparr>" "[]" newLoader sampleMesh,
          OF imp meshes before pos faces good bad1 bad2]
  from r tri one show ?thesis
    by (auto simp: getErrorMessage_def to_string_5 mNumVertices_def sampleAiMesh_def)
qed

end
